theory Spec2Isabelle
  imports Main "HOL-Library.Word"
begin

section \<open>The comon debugger extension: command handlers of ext.cpp\<close>

text \<open>
  The development embeds \<^verbatim>\<open>src/comon/ext.cpp\<close>: the tokenizer \<^verbatim>\<open>split_args\<close>, the
  filter parser \<^verbatim>\<open>parse_filter\<close> and the exported command handlers. The handlers
  drive a session object (\<^verbatim>\<open>dbgsession.h\<close>) and a monitor (\<^verbatim>\<open>comon.h\<close>) whose
  sources are not part of the file; those are modelled from the specification and
  marked as such where they are defined.
\<close>

subsection \<open>Plain values\<close>

type_synonym GUID = "128 word"
type_synonym CLSID = GUID
type_synonym IID = GUID
type_synonym DWORD = "32 word"
type_synonym ULONG64 = "64 word"

text \<open>The error kinds of the engine (specification, section 7).\<close>

datatype engine_error =
  InvalidGuidFormat | AlreadyAttached | NotAttached | UnknownVtable
  | MethodNotFound | BreakpointNotFound | UnderlyingBreakpointFailure

text \<open>
  \<^verbatim>\<open>HRESULT\<close>: the codes ext.cpp names, and the typed failures that the engine hands
  back through its \<^verbatim>\<open>HRESULT\<close> returning methods. Their numeric encoding is not in
  ext.cpp; the handlers only pass them on or test them with \<^verbatim>\<open>SUCCEEDED\<close> and
  \<^verbatim>\<open>RETURN_IF_FAILED\<close>.
\<close>

datatype HRESULT = S_OK | E_FAIL | E_INVALIDARG | E_ENGINE engine_error

fun SUCCEEDED :: "HRESULT \<Rightarrow> bool" where
  "SUCCEEDED S_OK = True"
| "SUCCEEDED E_FAIL = False"
| "SUCCEEDED E_INVALIDARG = False"
| "SUCCEEDED (E_ENGINE e) = False"

definition FAILED :: "HRESULT \<Rightarrow> bool" where
  "FAILED hr = (\<not> SUCCEEDED hr)"

text \<open>
  What can leave a function as an exception: the two exceptions that the numeric
  conversions of the C++ standard library throw, and the failure of a \<^verbatim>\<open>void\<close> method
  of the engine.
\<close>

datatype cxx_exception = invalid_argument | out_of_range | engine_failure engine_error

subsection \<open>Tokenizer: \<^verbatim>\<open>split_args\<close> (ext.cpp, lines 41-74)\<close>

text \<open>\<^verbatim>\<open>std::isspace\<close> in the "C" locale: space, \<^verbatim>\<open>\t \n \v \f \r\<close>.\<close>

definition isspace :: "char \<Rightarrow> bool" where
  "isspace c = (c \<in> set [CHR '' '', CHR 0x09, CHR 0x0A, CHR 0x0B, CHR 0x0C, CHR 0x0D])"

text \<open>
  One round of the loop over the characters. The state is the triple of the locals
  \<^verbatim>\<open>citation_char\<close> (with the source's sentinel \<^verbatim>\<open>'\0'\<close>), \<^verbatim>\<open>vargs\<close> and \<^verbatim>\<open>token\<close>.
\<close>

fun split_step :: "char \<times> string list \<times> string \<Rightarrow> char \<Rightarrow> char \<times> string list \<times> string" where
  "split_step (citation_char, vargs, token) c =
     (if citation_char \<noteq> CHR 0x00 then
        (if c = citation_char then
           (if token \<noteq> [] then (CHR 0x00, vargs @ [token], [])
            else (CHR 0x00, vargs, token))
         else (citation_char, vargs, token @ [c]))
      else if c = CHR 0x22 \<or> c = CHR 0x27 then (c, vargs, token)
      else if isspace c \<or> c = CHR '','' then
        (if token \<noteq> [] then (citation_char, vargs @ [token], [])
         else (citation_char, vargs, token))
      else (citation_char, vargs, token @ [c]))"

definition split_args :: "string \<Rightarrow> string list" where
  "split_args args =
     (case foldl split_step (CHR 0x00, [], []) args of
        (citation_char, vargs, token) \<Rightarrow>
          if token \<noteq> [] then vargs @ [token] else vargs)"

subsection \<open>Numeric conversion: \<^verbatim>\<open>std::stoul\<close> and \<^verbatim>\<open>std::stoull\<close>\<close>

text \<open>
  The handlers call \<^verbatim>\<open>std::stoul\<close> and \<^verbatim>\<open>std::stoull\<close> with the default base 10.
  Both run the C library's \<^verbatim>\<open>strtoul\<close>/\<^verbatim>\<open>strtoull\<close>: leading white space is skipped,
  one sign is accepted, then the longest run of decimal digits is converted and the
  rest of the string is ignored. When no digit was converted the call throws
  \<^verbatim>\<open>std::invalid_argument\<close>; when the magnitude does not fit the unsigned type it
  throws \<^verbatim>\<open>std::out_of_range\<close>; a minus sign negates the value in the unsigned type.
  The width is that of the result word: \<^verbatim>\<open>unsigned long\<close> has 32 bits on the Windows
  targets of DbgEng, \<^verbatim>\<open>unsigned long long\<close> has 64.
\<close>

definition isdigit :: "char \<Rightarrow> bool" where
  "isdigit c = (c \<in> set ''0123456789'')"

definition digit_value :: "char \<Rightarrow> nat" where
  "digit_value c = of_char c - 48"

definition decimal_value :: "string \<Rightarrow> nat" where
  "decimal_value ds = foldl (\<lambda>n c. 10 * n + digit_value c) 0 ds"

definition strtou :: "string \<Rightarrow> cxx_exception + 'a::len word" where
  "strtou s =
     (let s1 = dropWhile isspace s;
          negative = (take 1 s1 = ''-'');
          s2 = (if take 1 s1 = ''-'' \<or> take 1 s1 = ''+'' then drop 1 s1 else s1);
          ds = takeWhile isdigit s2
      in if ds = [] then Inl invalid_argument
         else if 2 ^ LENGTH('a) \<le> decimal_value ds then Inl out_of_range
         else if negative then Inr (- of_nat (decimal_value ds))
         else Inr (of_nat (decimal_value ds)))"

definition stoul :: "string \<Rightarrow> cxx_exception + DWORD" where
  "stoul s = strtou s"

definition stoull :: "string \<Rightarrow> cxx_exception + ULONG64" where
  "stoull s = strtou s"

subsection \<open>The filter and \<^verbatim>\<open>parse_filter\<close> (ext.cpp, lines 282-300)\<close>

text \<open>
  \<^verbatim>\<open>cofilter\<close> is a \<^verbatim>\<open>std::variant\<close> over \<^verbatim>\<open>no_filter\<close>, \<^verbatim>\<open>including_filter\<close> and
  \<^verbatim>\<open>excluding_filter\<close>, the last two holding a \<^verbatim>\<open>std::unordered_set<CLSID>\<close>.
\<close>

datatype cofilter = no_filter | including_filter "CLSID set" | excluding_filter "CLSID set"

text \<open>
  \<^verbatim>\<open>try_parse_guid\<close> is declared in comon.h, which is not part of the sources; the
  parser is a parameter \<open>tpg\<close>: it returns the \<^verbatim>\<open>HRESULT\<close> and the value written to
  the out parameter. \<^verbatim>\<open>widen\<close> only changes the character type and is the identity
  here.

  The loop runs over the tokens from \<^verbatim>\<open>crbegin\<close> to \<^verbatim>\<open>crend\<close>;
  \<open>parse_filter_scan\<close> is the loop on the reversed sequence with the local \<^verbatim>\<open>clsids\<close>.
\<close>

fun parse_filter_scan :: "(string \<Rightarrow> HRESULT \<times> GUID) \<Rightarrow> string list \<Rightarrow> CLSID set \<Rightarrow> cofilter" where
  "parse_filter_scan tpg [] clsids =
     (if clsids \<noteq> {} then including_filter clsids else no_filter)"
| "parse_filter_scan tpg (tok # rest) clsids =
     (if tok = ''-i'' then including_filter clsids
      else if tok = ''-e'' then excluding_filter clsids
      else
        let (hr, clsid) = tpg tok in
        if SUCCEEDED hr then parse_filter_scan tpg rest (insert clsid clsids)
        else parse_filter_scan tpg rest clsids)"

definition parse_filter :: "(string \<Rightarrow> HRESULT \<times> GUID) \<Rightarrow> string list \<Rightarrow> cofilter" where
  "parse_filter tpg args = parse_filter_scan tpg (rev args) {}"

subsection \<open>What ext.cpp consumes from outside\<close>

text \<open>
  The handlers reach three things that are not in ext.cpp: the debugger client
  (\<^verbatim>\<open>QueryInterface\<close> for the control interface, breakpoint placement, module names),
  the GUID parser of comon.h, and the text of a breakpoint's description. They are
  the fields of one record, a parameter of every handler, so that each theorem holds
  for every debugger and every parser.
  \<^item> \<open>QueryInterface\<close>: the result of
    \<^verbatim>\<open>dbgclient->QueryInterface(__uuidof(IDebugControl4), ...)\<close>;
  \<^item> \<open>try_parse_guid\<close>: the parser of comon.h, result and out parameter;
  \<^item> \<open>place_breakpoint\<close>, \<open>remove_breakpoint\<close>: whether the debugger accepts to place,
    or to delete, the real breakpoint at an address (specification, section 6);
  \<^item> \<open>module_of\<close>: the module that holds an address (\<^verbatim>\<open>enumerate_modules\<close>).
\<close>

datatype method_selector = by_index DWORD | by_name string

record extern =
  QueryInterface :: HRESULT
  try_parse_guid :: "string \<Rightarrow> HRESULT \<times> GUID"
  place_breakpoint :: "ULONG64 \<Rightarrow> bool"
  remove_breakpoint :: "ULONG64 \<Rightarrow> bool"
  module_of :: "ULONG64 \<Rightarrow> string"
  describe :: "CLSID \<Rightarrow> IID \<Rightarrow> method_selector \<Rightarrow> string"

subsection \<open>The engine behind the handlers\<close>

text \<open>
  The data model of the specification, section 3. The type metadata store is read
  only: \<open>get_type_methods\<close> gives the ordered method names of an interface, the two
  name resolvers give display names.
\<close>

record VtableRecord =
  vt_module_name :: string
  vt_clsid :: CLSID
  vt_iid :: IID
  vt_is_64bit :: bool
  vt_address :: ULONG64

record Breakpoint =
  bp_id :: DWORD
  bp_description :: string
  bp_address :: ULONG64

record cometadata =
  get_type_methods :: "IID \<Rightarrow> string list option"
  resolve_class_name :: "CLSID \<Rightarrow> string option"
  resolve_type_name :: "IID \<Rightarrow> string option"

record comonitor =
  monitor_filter :: cofilter
  paused :: bool
  registry :: "VtableRecord list"
  breakpoints :: "Breakpoint list"
  next_id :: DWORD

record dbgsession =
  metadata :: cometadata
  active_monitor :: "comonitor option"

text \<open>
  Modelled from the spec: the filter's \<^verbatim>\<open>decide\<close> of comon.h is missing from the
  sources. Section 4.1: NoFilter observes every class, Including{S} the classes in
  S, Excluding{S} the classes outside S.
\<close>

fun decide :: "cofilter \<Rightarrow> CLSID \<Rightarrow> bool" where
  "decide no_filter c = True"
| "decide (including_filter S) c = (c \<in> S)"
| "decide (excluding_filter S) c = (c \<notin> S)"

text \<open>
  Modelled from the spec: the vtable registry of the monitor (comon.h) is missing
  from the sources. Section 4.2: registration consults the filter and drops the
  record of a class that is not observed; registering an identical (clsid, iid,
  address) tuple again adds nothing; otherwise the record is appended.
\<close>

definition same_vtable :: "CLSID \<Rightarrow> IID \<Rightarrow> ULONG64 \<Rightarrow> VtableRecord \<Rightarrow> bool" where
  "same_vtable c i a r = (vt_clsid r = c \<and> vt_iid r = i \<and> vt_address r = a)"

definition observed_record :: "extern \<Rightarrow> CLSID \<Rightarrow> IID \<Rightarrow> ULONG64 \<Rightarrow> bool \<Rightarrow> VtableRecord" where
  "observed_record E c i a is64 =
     \<lparr>vt_module_name = module_of E a, vt_clsid = c, vt_iid = i,
      vt_is_64bit = is64, vt_address = a\<rparr>"

definition registry_register ::
  "extern \<Rightarrow> cofilter \<Rightarrow> CLSID \<Rightarrow> IID \<Rightarrow> ULONG64 \<Rightarrow> bool \<Rightarrow> VtableRecord list \<Rightarrow> VtableRecord list" where
  "registry_register E f c i a is64 recs =
     (if \<not> decide f c then recs
      else if find (same_vtable c i a) recs \<noteq> None then recs
      else recs @ [observed_record E c i a is64])"

definition find_vtables_by_iid :: "VtableRecord list \<Rightarrow> IID \<Rightarrow> VtableRecord list" where
  "find_vtables_by_iid recs i = filter (\<lambda>r. vt_iid r = i) recs"

definition find_vtables_by_clsid :: "VtableRecord list \<Rightarrow> CLSID \<Rightarrow> VtableRecord list" where
  "find_vtables_by_clsid recs c = filter (\<lambda>r. vt_clsid r = c) recs"

definition list_cotypes :: "comonitor \<Rightarrow> (CLSID \<times> (ULONG64 \<times> IID) list) list" where
  "list_cotypes m =
     map (\<lambda>c. (c, map (\<lambda>r. (vt_address r, vt_iid r)) (find_vtables_by_clsid (registry m) c)))
       (remdups (map vt_clsid (registry m)))"

text \<open>
  Modelled from the spec: the breakpoint manager of the monitor (comon.h) is
  missing from the sources. Section 4.3: a numeric selector is the method index, a
  name is looked up in the ordered method list of the interface ("method not
  found" when the name or the metadata is absent); a vtable record matching
  (clsid, iid) must exist ("vtable not yet observed" when there is none) and the
  address is vtable base + index * pointer width, in 64-bit arithmetic; then the
  debugger is asked to place the real breakpoint, and only when it accepts is an id
  allocated and the record stored. The specification does not say which of its two
  failures is reported when a name does not resolve and no vtable is registered
  either. Its sentences on the registry ("if none exists, fails", and section 8,
  "on a class with no registered vtable fails with UnknownVtable") carry no
  condition on the selector, so the registry is consulted first here; the selector
  is still resolved before any address arithmetic. ext.cpp calls two overloads of
  \<^verbatim>\<open>create_cobreakpoint\<close>, one with a \<^verbatim>\<open>DWORD\<close> and one with a name;
  \<open>method_selector\<close> is the argument of either.
\<close>

fun index_of :: "string \<Rightarrow> string list \<Rightarrow> nat option" where
  "index_of name [] = None"
| "index_of name (m # ms) =
     (if m = name then Some 0
      else case index_of name ms of None \<Rightarrow> None | Some k \<Rightarrow> Some (Suc k))"

definition resolve_selector :: "cometadata \<Rightarrow> IID \<Rightarrow> method_selector \<Rightarrow> engine_error + DWORD" where
  "resolve_selector meta i sel =
     (case sel of
        by_index n \<Rightarrow> Inr n
      | by_name name \<Rightarrow>
          (case get_type_methods meta i of
             None \<Rightarrow> Inl MethodNotFound
           | Some methods \<Rightarrow>
               (case index_of name methods of
                  None \<Rightarrow> Inl MethodNotFound
                | Some k \<Rightarrow> Inr (of_nat k))))"

definition matches :: "CLSID \<Rightarrow> IID \<Rightarrow> VtableRecord \<Rightarrow> bool" where
  "matches c i r = (vt_clsid r = c \<and> vt_iid r = i)"

definition pointer_width :: "VtableRecord \<Rightarrow> ULONG64" where
  "pointer_width r = (if vt_is_64bit r then 8 else 4)"

definition breakpoint_address :: "VtableRecord list \<Rightarrow> CLSID \<Rightarrow> IID \<Rightarrow> DWORD \<Rightarrow> engine_error + ULONG64" where
  "breakpoint_address recs c i n =
     (case find (matches c i) recs of
        None \<Rightarrow> Inl UnknownVtable
      | Some r \<Rightarrow> Inr (vt_address r + ucast n * pointer_width r))"

definition selector_address ::
  "cometadata \<Rightarrow> comonitor \<Rightarrow> CLSID \<Rightarrow> IID \<Rightarrow> method_selector \<Rightarrow> engine_error + ULONG64" where
  "selector_address meta m c i sel =
     (case find (matches c i) (registry m) of
        None \<Rightarrow> Inl UnknownVtable
      | Some r \<Rightarrow>
          (case resolve_selector meta i sel of
             Inl e \<Rightarrow> Inl e
           | Inr n \<Rightarrow> Inr (vt_address r + ucast n * pointer_width r)))"

definition breakpoint_create ::
  "extern \<Rightarrow> cometadata \<Rightarrow> comonitor \<Rightarrow> CLSID \<Rightarrow> IID \<Rightarrow> method_selector \<Rightarrow> engine_error + DWORD \<times> comonitor" where
  "breakpoint_create E meta m c i sel =
     (case selector_address meta m c i sel of
        Inl e \<Rightarrow> Inl e
      | Inr a \<Rightarrow>
          if \<not> place_breakpoint E a then Inl UnderlyingBreakpointFailure
          else Inr (next_id m,
                 m\<lparr>breakpoints := breakpoints m @
                      [\<lparr>bp_id = next_id m, bp_description = describe E c i sel, bp_address = a\<rparr>],
                   next_id := next_id m + 1\<rparr>))"

definition breakpoint_remove :: "extern \<Rightarrow> comonitor \<Rightarrow> DWORD \<Rightarrow> engine_error + comonitor" where
  "breakpoint_remove E m n =
     (case find (\<lambda>b. bp_id b = n) (breakpoints m) of
        None \<Rightarrow> Inl BreakpointNotFound
      | Some b \<Rightarrow>
          if \<not> remove_breakpoint E (bp_address b) then Inl UnderlyingBreakpointFailure
          else Inr (m\<lparr>breakpoints := filter (\<lambda>b. bp_id b \<noteq> n) (breakpoints m)\<rparr>))"

text \<open>
  Modelled from the spec: the monitor (class \<^verbatim>\<open>comonitor\<close> of comon.h) is missing
  from the sources. Section 4.4: two states, running at first; \<^verbatim>\<open>register_vtable\<close>
  reaches the registry only while running and is a successful no-op while paused;
  the breakpoint operations go to the breakpoint manager in either state. Its
  methods return an \<^verbatim>\<open>HRESULT\<close>, which the handlers return as it is. The
  specification leaves the first breakpoint id open; it is 0 here.
\<close>

definition new_monitor :: "cofilter \<Rightarrow> comonitor" where
  "new_monitor f =
     \<lparr>monitor_filter = f, paused = False, registry = [], breakpoints = [], next_id = 0\<rparr>"

definition pause :: "comonitor \<Rightarrow> comonitor" where
  "pause m = m\<lparr>paused := True\<rparr>"

definition resume :: "comonitor \<Rightarrow> comonitor" where
  "resume m = m\<lparr>paused := False\<rparr>"

definition is_paused :: "comonitor \<Rightarrow> bool" where
  "is_paused m = paused m"

definition register_vtable ::
  "extern \<Rightarrow> comonitor \<Rightarrow> CLSID \<Rightarrow> IID \<Rightarrow> ULONG64 \<Rightarrow> bool \<Rightarrow> HRESULT \<times> comonitor" where
  "register_vtable E m c i a is64 =
     (if paused m then (S_OK, m)
      else (S_OK, m\<lparr>registry := registry_register E (monitor_filter m) c i a is64 (registry m)\<rparr>))"

definition create_cobreakpoint ::
  "extern \<Rightarrow> cometadata \<Rightarrow> comonitor \<Rightarrow> CLSID \<Rightarrow> IID \<Rightarrow> method_selector \<Rightarrow> HRESULT \<times> comonitor" where
  "create_cobreakpoint E meta m c i sel =
     (case breakpoint_create E meta m c i sel of
        Inl e \<Rightarrow> (E_ENGINE e, m)
      | Inr (n, m') \<Rightarrow> (S_OK, m'))"

definition remove_cobreakpoint :: "extern \<Rightarrow> comonitor \<Rightarrow> DWORD \<Rightarrow> HRESULT \<times> comonitor" where
  "remove_cobreakpoint E m n =
     (case breakpoint_remove E m n of
        Inl e \<Rightarrow> (E_ENGINE e, m)
      | Inr m' \<Rightarrow> (S_OK, m'))"

definition list_breakpoints :: "comonitor \<Rightarrow> (DWORD \<times> string \<times> ULONG64) list" where
  "list_breakpoints m = map (\<lambda>b. (bp_id b, bp_description b, bp_address b)) (breakpoints m)"

text \<open>
  Modelled from the spec: the session (class \<^verbatim>\<open>dbgsession\<close> of dbgsession.h) is
  missing from the sources. Section 4.5: at most one active monitor; \<^verbatim>\<open>attach\<close> fails
  when one is active and otherwise makes a new monitor with the filter; \<^verbatim>\<open>detach\<close>
  drops the monitor and is a no-op when there is none; the metadata store does not
  depend on the monitor.
\<close>

definition find_active_monitor :: "dbgsession \<Rightarrow> comonitor option" where
  "find_active_monitor s = active_monitor s"

definition get_metadata :: "dbgsession \<Rightarrow> cometadata" where
  "get_metadata s = metadata s"

definition attach :: "cofilter \<Rightarrow> dbgsession \<Rightarrow> engine_error + dbgsession" where
  "attach f s =
     (case active_monitor s of
        Some m \<Rightarrow> Inl AlreadyAttached
      | None \<Rightarrow> Inr (s\<lparr>active_monitor := Some (new_monitor f)\<rparr>))"

definition detach :: "dbgsession \<Rightarrow> dbgsession" where
  "detach s = s\<lparr>active_monitor := None\<rparr>"

subsection \<open>The exported handlers of ext.cpp\<close>

text \<open>
  What a handler writes through \<^verbatim>\<open>OutputWide\<close> and \<^verbatim>\<open>ControlledOutputWide\<close>. A line
  with a constant text keeps the text; a line built by \<^verbatim>\<open>std::format\<close> keeps the
  formatted values. \<^verbatim>\<open>print_clsids\<close> iterates an unordered set, so its lines are
  kept as the set. \<^verbatim>\<open>ControlledOutputWide\<close> with \<^verbatim>\<open>DEBUG_OUTPUT_NORMAL\<close> is a normal line.
\<close>

datatype dbg_output =
  Error_text string
  | Normal_text string
  | Breakpoint_line DWORD string ULONG64
  | Status_line bool
  | Cotype_line CLSID "string option"
  | Vtable_line IID "string option" ULONG64
  | Clsid_lines "CLSID set"

text \<open>The texts the handlers write, with the line feed where the source has one.\<close>

definition monitor_not_enabled_error :: string where
  "monitor_not_enabled_error = ''COM monitor not enabled for the current process.''"

definition invalid_arguments_error :: string where
  "invalid_arguments_error =
     ''ERROR: invalid arguments. Run !cohelp to check the syntax.'' @ [CHR 0x0A]"

definition already_enabled_error :: string where
  "already_enabled_error = ''COM monitor is already enabled for the current process.''"

definition monitor_enabled_message :: string where
  "monitor_enabled_message =
     ''<b>COM monitor enabled for the current process.</b>'' @ [CHR 0x0A]"

definition including_header :: string where
  "including_header = [CHR 0x0A] @ ''CLSIDs to monitor:'' @ [CHR 0x0A]"

definition excluding_header :: string where
  "excluding_header = [CHR 0x0A] @ ''CLSIDs to EXCLUDE while monitoring:'' @ [CHR 0x0A]"

definition recorded_types_header :: string where
  "recorded_types_header =
     [CHR 0x0A] @ ''COM types recorded for the current process:'' @ [CHR 0x0A]"

text \<open>
  A handler is \<^verbatim>\<open>extern "C"\<close> and returns an \<^verbatim>\<open>HRESULT\<close>; an exception that no
  \<^verbatim>\<open>catch\<close> of the handler takes leaves the handler instead (\<open>Escaped\<close>). The result
  of a handler is what it returned or threw, the lines it wrote, and the session
  \<^verbatim>\<open>g_dbgsession\<close> after the call.
\<close>

datatype handler_result = Returned HRESULT | Escaped cxx_exception

type_synonym handler = "extern \<Rightarrow> dbgsession \<Rightarrow> string \<Rightarrow> handler_result \<times> dbg_output list \<times> dbgsession"

text \<open>
  \<^verbatim>\<open>DebugExtensionUninitialize\<close> (line 85). \<^verbatim>\<open>DebugExtensionInitialize\<close> and
  \<^verbatim>\<open>DebugExtensionNotify\<close> do not touch the session, and \<^verbatim>\<open>cometa\<close> (lines 87-174)
  works on the metadata store alone and never reaches the monitor; they are left
  out.
\<close>

definition DebugExtensionUninitialize :: "dbgsession \<Rightarrow> dbgsession" where
  "DebugExtensionUninitialize s = detach s"

definition set_monitor :: "dbgsession \<Rightarrow> comonitor \<Rightarrow> dbgsession" where
  "set_monitor s m = s\<lparr>active_monitor := Some m\<rparr>"

text \<open>\<^verbatim>\<open>cobp\<close> (lines 176-204). The monitor is held by reference: what a method
  changes in it is the session's monitor afterwards (\<open>set_monitor\<close>).\<close>

definition cobp :: handler where
  "cobp E s args =
     (if FAILED (QueryInterface E) then (Returned (QueryInterface E), [], s)
      else
        let vargs = split_args args in
        if length vargs < 3 then
          (Returned E_INVALIDARG, [Error_text invalid_arguments_error], s)
        else
          let (hr_clsid, clsid) = try_parse_guid E (vargs ! 0) in
          if FAILED hr_clsid then (Returned hr_clsid, [], s)
          else
            let (hr_iid, iid) = try_parse_guid E (vargs ! 1) in
            if FAILED hr_iid then (Returned hr_iid, [], s)
            else
              (case find_active_monitor s of
                Some monitor \<Rightarrow>
                  (case stoul (vargs ! 2) of
                     Inr method_num \<Rightarrow>
                       (let (hr, monitor') =
                              create_cobreakpoint E (get_metadata s) monitor clsid iid
                                (by_index method_num)
                        in (Returned hr, [], set_monitor s monitor'))
                   | Inl invalid_argument \<Rightarrow>
                       (let (hr, monitor') =
                              create_cobreakpoint E (get_metadata s) monitor clsid iid
                                (by_name (vargs ! 2))
                        in (Returned hr, [], set_monitor s monitor'))
                   | Inl ex \<Rightarrow> (Escaped ex, [], s))
              | None \<Rightarrow> (Returned E_FAIL, [Error_text monitor_not_enabled_error], s)))"

text \<open>\<^verbatim>\<open>cobl\<close> (lines 206-219).\<close>

definition cobl :: handler where
  "cobl E s args =
     (if FAILED (QueryInterface E) then (Returned (QueryInterface E), [], s)
      else
        case find_active_monitor s of
          Some monitor \<Rightarrow>
            (Returned S_OK,
             map (\<lambda>(n, desc, addr). Breakpoint_line n desc addr) (list_breakpoints monitor), s)
        | None \<Rightarrow> (Returned E_FAIL, [Error_text monitor_not_enabled_error], s))"

text \<open>\<^verbatim>\<open>cobd\<close> (lines 221-231): \<^verbatim>\<open>std::stoul(args)\<close> is evaluated outside any
  \<^verbatim>\<open>try\<close> block.\<close>

definition cobd :: handler where
  "cobd E s args =
     (if FAILED (QueryInterface E) then (Returned (QueryInterface E), [], s)
      else
        case find_active_monitor s of
          Some monitor \<Rightarrow>
            (case stoul args of
               Inr n \<Rightarrow>
                 (let (hr, monitor') = remove_cobreakpoint E monitor n
                  in (Returned hr, [], set_monitor s monitor'))
             | Inl ex \<Rightarrow> (Escaped ex, [], s))
        | None \<Rightarrow> (Returned E_FAIL, [Error_text monitor_not_enabled_error], s))"

text \<open>\<^verbatim>\<open>coreg\<close> (lines 233-256): \<^verbatim>\<open>std::stoull(vargs[2])\<close> is evaluated outside any
  \<^verbatim>\<open>try\<close> block; the last argument of \<^verbatim>\<open>register_vtable\<close> is the literal
  \<^verbatim>\<open>false\<close>.\<close>

definition coreg :: handler where
  "coreg E s args =
     (if FAILED (QueryInterface E) then (Returned (QueryInterface E), [], s)
      else
        let vargs = split_args args in
        if length vargs < 3 then
          (Returned E_INVALIDARG, [Error_text invalid_arguments_error], s)
        else
          let (hr_clsid, clsid) = try_parse_guid E (vargs ! 0) in
          if FAILED hr_clsid then (Returned hr_clsid, [], s)
          else
            let (hr_iid, iid) = try_parse_guid E (vargs ! 1) in
            if FAILED hr_iid then (Returned hr_iid, [], s)
            else
              (case find_active_monitor s of
                Some monitor \<Rightarrow>
                  (case stoull (vargs ! 2) of
                     Inr vtable_addr \<Rightarrow>
                       (let (hr, monitor') =
                              register_vtable E monitor clsid iid vtable_addr False
                        in (Returned hr, [], set_monitor s monitor'))
                   | Inl ex \<Rightarrow> (Escaped ex, [], s))
              | None \<Rightarrow> (Returned E_FAIL, [Error_text monitor_not_enabled_error], s)))"

text \<open>\<^verbatim>\<open>comon\<close> (lines 258-349), with its two lambdas \<^verbatim>\<open>print_filter\<close> and
  \<^verbatim>\<open>parse_filter\<close> (the latter defined above). \<^verbatim>\<open>g_dbgsession.attach(filter)\<close> returns
  \<^verbatim>\<open>void\<close>; its failure, which needs an active monitor and so cannot occur on the
  path that calls it, is kept as an exception.\<close>

fun print_filter :: "cofilter \<Rightarrow> dbg_output list" where
  "print_filter (including_filter clsids) =
     [Normal_text including_header, Clsid_lines clsids]"
| "print_filter (excluding_filter clsids) =
     [Normal_text excluding_header, Clsid_lines clsids]"
| "print_filter no_filter = []"

definition print_status :: "cometadata \<Rightarrow> comonitor \<Rightarrow> dbg_output list" where
  "print_status cometa monitor =
     Status_line (is_paused monitor)
     # Normal_text recorded_types_header
     # concat (map (\<lambda>(clsid, vtables).
           Cotype_line clsid (resolve_class_name cometa clsid)
           # map (\<lambda>(addr, iid). Vtable_line iid (resolve_type_name cometa iid) addr) vtables)
         (list_cotypes monitor))"

definition comon :: handler where
  "comon E s args =
     (if FAILED (QueryInterface E) then (Returned (QueryInterface E), [], s)
      else
        let vargs = split_args args in
        if length vargs < 1 then
          (Returned E_INVALIDARG, [Error_text invalid_arguments_error], s)
        else
          case find_active_monitor s of
            Some monitor \<Rightarrow>
              if vargs ! 0 = ''attach'' then
                (Returned E_FAIL, [Error_text already_enabled_error], s)
              else if vargs ! 0 = ''pause'' then
                (Returned S_OK, [], set_monitor s (pause monitor))
              else if vargs ! 0 = ''resume'' then
                (Returned S_OK, [], set_monitor s (resume monitor))
              else if vargs ! 0 = ''detach'' then
                (Returned S_OK, [], detach s)
              else if vargs ! 0 = ''status'' then
                (Returned S_OK, print_status (get_metadata s) monitor, s)
              else
                (Returned E_INVALIDARG, [Error_text invalid_arguments_error], s)
          | None \<Rightarrow>
              if vargs ! 0 = ''attach'' then
                (let filter' = parse_filter (try_parse_guid E) (drop 1 vargs) in
                 (case attach filter' s of
                    Inr s' \<Rightarrow>
                      (Returned S_OK, Normal_text monitor_enabled_message # print_filter filter', s')
                  | Inl e \<Rightarrow> (Escaped (engine_failure e), [], s)))
              else
                (Returned E_FAIL, [Error_text monitor_not_enabled_error], s))"

subsection \<open>Vocabulary of the statements\<close>

text \<open>The GUIDs of the tokens that \<open>tpg\<close> accepts: the set the scan collects.\<close>

definition parsed_guids :: "(string \<Rightarrow> HRESULT \<times> GUID) \<Rightarrow> string list \<Rightarrow> CLSID set" where
  "parsed_guids tpg toks = set (map (\<lambda>t. snd (tpg t)) (filter (\<lambda>t. SUCCEEDED (fst (tpg t))) toks))"

definition is_flag :: "string \<Rightarrow> bool" where
  "is_flag t = (t = ''-i'' \<or> t = ''-e'')"


subsection \<open>A sample debugger and sample sessions\<close>

text \<open>
  Concrete values for the worked examples. The sample parser accepts the registry
  text of two GUIDs (a class id and \<^verbatim>\<open>IID_IUnknown\<close>) and fails on every other
  token; the sample debugger refuses a breakpoint at address 0 only.
\<close>

definition sample_clsid_text :: string where
  "sample_clsid_text = ''{0000031A-0000-0000-C000-000000000046}''"

definition sample_iid_text :: string where
  "sample_iid_text = ''{00000000-0000-0000-C000-000000000046}''"

definition sample_clsid :: CLSID where
  "sample_clsid = 0x0000031A00000000C000000000000046"

definition sample_iid :: IID where
  "sample_iid = 0x0000000000000000C000000000000046"

text \<open>The command line of \<^verbatim>\<open>cobp\<close> and \<^verbatim>\<open>coreg\<close>: both GUIDs, then a third argument.\<close>

definition sample_args :: "string \<Rightarrow> string" where
  "sample_args third = sample_clsid_text @ '' '' @ sample_iid_text @ '' '' @ third"

definition sample_parser :: "string \<Rightarrow> HRESULT \<times> GUID" where
  "sample_parser t =
     (if t = sample_clsid_text then (S_OK, sample_clsid)
      else if t = sample_iid_text then (S_OK, sample_iid)
      else (E_ENGINE InvalidGuidFormat, 0))"

definition sample_extern :: extern where
  "sample_extern =
     \<lparr>QueryInterface = S_OK,
      try_parse_guid = sample_parser,
      place_breakpoint = (\<lambda>a. a \<noteq> 0),
      remove_breakpoint = (\<lambda>a. True),
      module_of = (\<lambda>a. ''combase''),
      describe = (\<lambda>c i sel. ''cobreakpoint'')\<rparr>"

definition sample_metadata :: cometadata where
  "sample_metadata =
     \<lparr>get_type_methods =
        (\<lambda>i. if i = sample_iid then Some [''QueryInterface'', ''AddRef'', ''Release''] else None),
      resolve_class_name = (\<lambda>c. None),
      resolve_type_name = (\<lambda>i. if i = sample_iid then Some ''IUnknown'' else None)\<rparr>"



definition excluding_monitor :: comonitor where
  "excluding_monitor = new_monitor (excluding_filter {sample_clsid})"

definition detached_session :: dbgsession where
  "detached_session = \<lparr>metadata = sample_metadata, active_monitor = None\<rparr>"

definition attached_session :: dbgsession where
  "attached_session = \<lparr>metadata = sample_metadata, active_monitor = Some (new_monitor no_filter)\<rparr>"


section \<open>Properties\<close>

subsection \<open>The scan of \<^verbatim>\<open>parse_filter\<close>\<close>

lemma parsed_guids_simps:
  "parsed_guids tpg [] = {}"
  "parsed_guids tpg (t # ts) =
     (if SUCCEEDED (fst (tpg t)) then insert (snd (tpg t)) (parsed_guids tpg ts)
      else parsed_guids tpg ts)"
  by (simp_all add: parsed_guids_def)

lemma parsed_guids_append:
  "parsed_guids tpg (xs @ ys) = parsed_guids tpg xs \<union> parsed_guids tpg ys"
  by (simp add: parsed_guids_def)

lemma parsed_guids_rev: "parsed_guids tpg (rev ts) = parsed_guids tpg ts"
  by (simp add: parsed_guids_def flip: rev_filter rev_map)

lemma scan_until_flag:
  "\<not> list_ex is_flag ts \<Longrightarrow>
   parse_filter_scan tpg (ts @ rest) clsids =
   parse_filter_scan tpg rest (clsids \<union> parsed_guids tpg ts)"
proof (induction ts arbitrary: clsids)
  case Nil
  then show ?case by (simp add: parsed_guids_simps)
next
  case (Cons t ts)
  then show ?case
    by (cases "tpg t") (simp add: parsed_guids_simps is_flag_def)
qed

lemma scan_without_flag:
  "\<not> list_ex is_flag ts \<Longrightarrow>
   parse_filter_scan tpg ts clsids =
     (if clsids \<union> parsed_guids tpg ts \<noteq> {} then including_filter (clsids \<union> parsed_guids tpg ts)
      else no_filter)"
  using scan_until_flag [of ts tpg "[]" clsids] by simp

lemma parse_filter_flag:
  assumes "\<not> list_ex is_flag after"
  shows "parse_filter tpg (before @ ''-i'' # after) = including_filter (parsed_guids tpg after)"
    and "parse_filter tpg (before @ ''-e'' # after) = excluding_filter (parsed_guids tpg after)"
proof -
  have r: "\<not> list_ex is_flag (rev after)" using assms by (simp add: list_ex_iff)
  show "parse_filter tpg (before @ ''-i'' # after) = including_filter (parsed_guids tpg after)"
    using scan_until_flag [OF r, of tpg "''-i'' # rev before" "{}"]
    by (simp add: parse_filter_def parsed_guids_rev)
  show "parse_filter tpg (before @ ''-e'' # after) = excluding_filter (parsed_guids tpg after)"
    using scan_until_flag [OF r, of tpg "''-e'' # rev before" "{}"]
    by (simp add: parse_filter_def parsed_guids_rev)
qed

lemma parse_filter_no_flag:
  assumes "\<not> list_ex is_flag toks"
  shows "parse_filter tpg toks =
     (if parsed_guids tpg toks = {} then no_filter else including_filter (parsed_guids tpg toks))"
proof -
  have r: "\<not> list_ex is_flag (rev toks)" using assms by (simp add: list_ex_iff)
  show ?thesis
    using scan_without_flag [OF r, of tpg "{}"]
    by (simp add: parse_filter_def parsed_guids_rev)
qed

lemma scan_skip:
  "\<not> is_flag t \<Longrightarrow> \<not> SUCCEEDED (fst (tpg t)) \<Longrightarrow>
   parse_filter_scan tpg (xs @ t # ys) clsids = parse_filter_scan tpg (xs @ ys) clsids"
proof (induction xs arbitrary: clsids)
  case Nil
  then show ?case by (cases "tpg t") (simp add: is_flag_def)
next
  case (Cons x xs)
  then show ?case by (cases "tpg x") simp
qed

lemma parse_filter_skip:
  assumes "\<not> is_flag t" "\<not> SUCCEEDED (fst (tpg t))"
  shows "parse_filter tpg (xs @ t # ys) = parse_filter tpg (xs @ ys)"
  using scan_skip [of t tpg "rev ys" "rev xs" "{}"] assms by (simp add: parse_filter_def)

text \<open>
  Claim C1, as amended. With one parseable GUID token and one flag token the
  position of the flag matters: the scan runs from the last token to the first and
  returns at the first flag it meets. A flag placed before the GUID yields the
  flag's variant over the set of that GUID; a flag placed after the GUID yields
  the flag's variant over the empty set. In general every token in front of the
  last flag is never read, and the set holds the GUIDs of the tokens behind it.
\<close>

theorem parse_filter_flag_position:
  assumes "\<not> is_flag tok" and "tpg tok = (hr, g)" and "SUCCEEDED hr"
    and "\<not> list_ex is_flag after"
  shows "parse_filter tpg [''-i'', tok] = including_filter {g}
       \<and> parse_filter tpg [''-e'', tok] = excluding_filter {g}
       \<and> parse_filter tpg [tok, ''-i''] = including_filter {}
       \<and> parse_filter tpg [tok, ''-e''] = excluding_filter {}
       \<and> parse_filter tpg (before @ ''-i'' # after) = including_filter (parsed_guids tpg after)
       \<and> parse_filter tpg (before @ ''-e'' # after) = excluding_filter (parsed_guids tpg after)"
proof -
  have one: "\<not> list_ex is_flag [tok]" using assms(1) by simp
  have guids: "parsed_guids tpg [tok] = {g}"
    using assms(2,3) by (simp add: parsed_guids_simps)
  have none: "\<not> list_ex is_flag ([]::string list)" by simp
  have "parse_filter tpg ([] @ ''-i'' # [tok]) = including_filter {g}"
    using parse_filter_flag(1) [OF one, of tpg "[]"] guids by simp
  moreover have "parse_filter tpg ([] @ ''-e'' # [tok]) = excluding_filter {g}"
    using parse_filter_flag(2) [OF one, of tpg "[]"] guids by simp
  moreover have "parse_filter tpg ([tok] @ ''-i'' # []) = including_filter {}"
    using parse_filter_flag(1) [OF none, of tpg "[tok]"] by (simp add: parsed_guids_simps)
  moreover have "parse_filter tpg ([tok] @ ''-e'' # []) = excluding_filter {}"
    using parse_filter_flag(2) [OF none, of tpg "[tok]"] by (simp add: parsed_guids_simps)
  ultimately show ?thesis
    using parse_filter_flag [OF assms(4), of tpg before] by simp
qed

text \<open>
  The amended claim C1 at the sample parser, with the class id as the GUID token.
\<close>

theorem parse_filter_flag_position_witness:
  "\<not> is_flag sample_clsid_text
   \<and> sample_parser sample_clsid_text = (S_OK, sample_clsid)
   \<and> SUCCEEDED S_OK
   \<and> \<not> list_ex is_flag [sample_iid_text, ''junk'']
   \<and> parse_filter sample_parser [''-i'', sample_clsid_text] = including_filter {sample_clsid}
   \<and> parse_filter sample_parser [''-e'', sample_clsid_text] = excluding_filter {sample_clsid}
   \<and> parse_filter sample_parser [sample_clsid_text, ''-i''] = including_filter {}
   \<and> parse_filter sample_parser [sample_clsid_text, ''-e''] = excluding_filter {}
   \<and> parse_filter sample_parser [sample_clsid_text, ''-e'', sample_iid_text, ''junk'']
        = excluding_filter {sample_iid}"
proof -
  have h1: "\<not> is_flag sample_clsid_text"
    by (simp add: is_flag_def sample_clsid_text_def)
  have h2: "sample_parser sample_clsid_text = (S_OK, sample_clsid)"
    by (simp add: sample_parser_def)
  have h3: "SUCCEEDED S_OK" by simp
  have h4: "\<not> list_ex is_flag [sample_iid_text, ''junk'']"
    by (simp add: is_flag_def sample_iid_text_def)
  have g: "parsed_guids sample_parser [sample_iid_text, ''junk''] = {sample_iid}"
    by (simp add: parsed_guids_simps sample_parser_def sample_iid_text_def sample_clsid_text_def)
  have "parse_filter sample_parser ([sample_clsid_text] @ ''-e'' # [sample_iid_text, ''junk''])
          = excluding_filter {sample_iid}"
    using parse_filter_flag_position
      [of sample_clsid_text sample_parser S_OK sample_clsid "[sample_iid_text, ''junk'']"
        "[sample_clsid_text]"] h1 h2 h3 h4 g
    by simp
  then show ?thesis
    using h1 h2 h3 h4
      parse_filter_flag_position
        [of sample_clsid_text sample_parser S_OK sample_clsid "[sample_iid_text, ''junk'']"
          "[sample_clsid_text]"]
    by simp
qed

text \<open>
  Claim C1 as stated fails: for the token \<open>sample_clsid_text\<close>, which the parser
  accepts, the flag in front gives \<open>Including\<close> of the GUID and the flag behind gives
  \<open>Including\<close> of the empty set, so the two orders do not yield the same set.
\<close>

theorem parse_filter_flag_after_guid_counterexample:
  "parse_filter sample_parser [''-i'', sample_clsid_text] = including_filter {sample_clsid}
   \<and> parse_filter sample_parser [sample_clsid_text, ''-i''] = including_filter {}
   \<and> parse_filter sample_parser [sample_clsid_text, ''-i''] \<noteq> including_filter {sample_clsid}
   \<and> parse_filter sample_parser [sample_clsid_text, ''-i'']
        \<noteq> parse_filter sample_parser [''-i'', sample_clsid_text]
   \<and> parse_filter sample_parser [sample_clsid_text, ''-e'']
        \<noteq> parse_filter sample_parser [''-e'', sample_clsid_text]"
  by (simp add: parse_filter_def sample_parser_def sample_clsid_text_def)

text \<open>
  Claim C8, as amended. A token that is neither a flag nor a parseable GUID is
  skipped and changes nothing in the result. When no flag token is present the
  result is \<open>Including\<close> over the collected GUIDs if there is one, and \<open>NoFilter\<close> if
  there is none. The scan starts at the end: a flag in the last position ends it at
  once, with the empty set.
\<close>

theorem parse_filter_skips_and_defaults:
  "(\<not> is_flag t \<and> \<not> SUCCEEDED (fst (tpg t)) \<longrightarrow>
      parse_filter tpg (xs @ t # ys) = parse_filter tpg (xs @ ys))
   \<and> (\<not> list_ex is_flag toks \<longrightarrow>
      parse_filter tpg toks =
        (if parsed_guids tpg toks = {} then no_filter
         else including_filter (parsed_guids tpg toks)))
   \<and> parse_filter tpg (toks @ [''-i'']) = including_filter {}
   \<and> parse_filter tpg (toks @ [''-e'']) = excluding_filter {}"
proof -
  have none: "\<not> list_ex is_flag ([]::string list)" by simp
  have "parse_filter tpg (toks @ ''-i'' # []) = including_filter {}"
    using parse_filter_flag(1) [OF none, of tpg toks] by (simp add: parsed_guids_simps)
  moreover have "parse_filter tpg (toks @ ''-e'' # []) = excluding_filter {}"
    using parse_filter_flag(2) [OF none, of tpg toks] by (simp add: parsed_guids_simps)
  ultimately show ?thesis
    using parse_filter_skip [of t tpg xs ys] parse_filter_no_flag [of toks tpg] by simp
qed

text \<open>
  The amended claim C8 at the sample parser: the token \<open>junk\<close> is skipped.
\<close>

theorem parse_filter_skips_and_defaults_witness:
  "\<not> is_flag ''junk'' \<and> \<not> SUCCEEDED (fst (sample_parser ''junk''))
   \<and> \<not> list_ex is_flag [sample_clsid_text, ''junk'', sample_iid_text]
   \<and> parse_filter sample_parser [sample_clsid_text, ''junk'', sample_iid_text]
        = parse_filter sample_parser [sample_clsid_text, sample_iid_text]
   \<and> parse_filter sample_parser [sample_clsid_text, ''junk'', sample_iid_text]
        = including_filter {sample_clsid, sample_iid}
   \<and> parse_filter sample_parser [] = no_filter"
proof -
  have h1: "\<not> is_flag ''junk'' \<and> \<not> SUCCEEDED (fst (sample_parser ''junk''))"
    by (simp add: is_flag_def sample_parser_def sample_clsid_text_def sample_iid_text_def)
  have h2: "\<not> list_ex is_flag [sample_clsid_text, ''junk'', sample_iid_text]"
    by (simp add: is_flag_def sample_clsid_text_def sample_iid_text_def)
  have g: "parsed_guids sample_parser [sample_clsid_text, ''junk'', sample_iid_text]
             = {sample_clsid, sample_iid}"
    by (simp add: parsed_guids_simps sample_parser_def sample_clsid_text_def sample_iid_text_def)
  have e: "parse_filter sample_parser [] = no_filter"
    by (simp add: parse_filter_def)
  note inst = parse_filter_skips_and_defaults [of "''junk''" sample_parser "[sample_clsid_text]"
        "[sample_iid_text]" "[sample_clsid_text, ''junk'', sample_iid_text]"]
  have "parse_filter sample_parser ([sample_clsid_text] @ ''junk'' # [sample_iid_text])
          = parse_filter sample_parser ([sample_clsid_text] @ [sample_iid_text])"
    using inst h1 by blast
  then have skip: "parse_filter sample_parser [sample_clsid_text, ''junk'', sample_iid_text]
          = parse_filter sample_parser [sample_clsid_text, sample_iid_text]"
    by simp
  have "parse_filter sample_parser [sample_clsid_text, ''junk'', sample_iid_text]
          = (if parsed_guids sample_parser [sample_clsid_text, ''junk'', sample_iid_text] = {}
             then no_filter
             else including_filter
               (parsed_guids sample_parser [sample_clsid_text, ''junk'', sample_iid_text]))"
    using inst h2 by blast
  then have "parse_filter sample_parser [sample_clsid_text, ''junk'', sample_iid_text]
          = including_filter {sample_clsid, sample_iid}"
    by (simp add: g)
  with skip show ?thesis
    using h1 h2 e by blast
qed

text \<open>
  Claim C8 as stated fails in its last clause: with a flag token and no GUID
  collected the result is the flag's variant over the empty set, not \<open>NoFilter\<close>.
\<close>

theorem parse_filter_flag_alone_counterexample:
  "parsed_guids sample_parser [''-i''] = {}
   \<and> parse_filter sample_parser [''-i''] = including_filter {}
   \<and> parse_filter sample_parser [''-i''] \<noteq> no_filter
   \<and> parse_filter sample_parser [''junk'', ''-e''] = excluding_filter {}
   \<and> parse_filter sample_parser [''junk'', ''-e''] \<noteq> no_filter"
  by (simp add: parse_filter_def parsed_guids_simps sample_parser_def
      sample_clsid_text_def sample_iid_text_def)

subsection \<open>Commands without a monitor\<close>

lemma set_monitor_same: "find_active_monitor s = Some m \<Longrightarrow> set_monitor s m = s"
  by (simp add: set_monitor_def find_active_monitor_def)

lemma find_set_monitor: "find_active_monitor (set_monitor s m) = Some m"
  by (simp add: set_monitor_def find_active_monitor_def)

lemma FAILED_iff: "FAILED hr \<longleftrightarrow> hr \<noteq> S_OK"
  by (cases hr) (simp_all add: FAILED_def)

lemma SUCCEEDED_iff: "SUCCEEDED hr \<longleftrightarrow> hr = S_OK"
  by (cases hr) simp_all

lemma cobl_no_monitor:
  "find_active_monitor s = None \<Longrightarrow> SUCCEEDED (QueryInterface E) \<Longrightarrow>
   cobl E s args = (Returned E_FAIL, [Error_text monitor_not_enabled_error], s)"
  by (simp add: cobl_def FAILED_def)

lemma cobd_no_monitor:
  "find_active_monitor s = None \<Longrightarrow> SUCCEEDED (QueryInterface E) \<Longrightarrow>
   cobd E s args = (Returned E_FAIL, [Error_text monitor_not_enabled_error], s)"
  by (simp add: cobd_def FAILED_def)

lemma cobp_no_monitor:
  "find_active_monitor s = None \<Longrightarrow> SUCCEEDED (QueryInterface E) \<Longrightarrow>
   3 \<le> length (split_args args) \<Longrightarrow>
   SUCCEEDED (fst (try_parse_guid E (split_args args ! 0))) \<Longrightarrow>
   SUCCEEDED (fst (try_parse_guid E (split_args args ! 1))) \<Longrightarrow>
   cobp E s args = (Returned E_FAIL, [Error_text monitor_not_enabled_error], s)"
  by (auto simp: cobp_def FAILED_def Let_def split: prod.splits)

lemma coreg_no_monitor:
  "find_active_monitor s = None \<Longrightarrow> SUCCEEDED (QueryInterface E) \<Longrightarrow>
   3 \<le> length (split_args args) \<Longrightarrow>
   SUCCEEDED (fst (try_parse_guid E (split_args args ! 0))) \<Longrightarrow>
   SUCCEEDED (fst (try_parse_guid E (split_args args ! 1))) \<Longrightarrow>
   coreg E s args = (Returned E_FAIL, [Error_text monitor_not_enabled_error], s)"
  by (auto simp: coreg_def FAILED_def Let_def split: prod.splits)

lemma cobl_no_monitor_fails:
  "find_active_monitor s = None \<Longrightarrow> \<exists>hr out. cobl E s args = (Returned hr, out, s) \<and> FAILED hr"
  by (simp add: cobl_def FAILED_def)

lemma cobd_no_monitor_fails:
  "find_active_monitor s = None \<Longrightarrow> \<exists>hr out. cobd E s args = (Returned hr, out, s) \<and> FAILED hr"
  by (simp add: cobd_def FAILED_def)

lemma cobp_no_monitor_fails:
  "find_active_monitor s = None \<Longrightarrow> \<exists>hr out. cobp E s args = (Returned hr, out, s) \<and> FAILED hr"
  by (simp add: cobp_def FAILED_def Let_def split: prod.splits)

lemma coreg_no_monitor_fails:
  "find_active_monitor s = None \<Longrightarrow> \<exists>hr out. coreg E s args = (Returned hr, out, s) \<and> FAILED hr"
  by (simp add: coreg_def FAILED_def Let_def split: prod.splits)

lemma query_failed:
  assumes "FAILED (QueryInterface E)"
  shows "cobp E s args = (Returned (QueryInterface E), [], s)"
    and "cobl E s args = (Returned (QueryInterface E), [], s)"
    and "cobd E s args = (Returned (QueryInterface E), [], s)"
    and "coreg E s args = (Returned (QueryInterface E), [], s)"
  using assms by (simp_all add: cobp_def cobl_def cobd_def coreg_def)

lemma too_few_arguments:
  assumes "SUCCEEDED (QueryInterface E)" and "length (split_args args) < 3"
  shows "cobp E s args = (Returned E_INVALIDARG, [Error_text invalid_arguments_error], s)"
    and "coreg E s args = (Returned E_INVALIDARG, [Error_text invalid_arguments_error], s)"
  using assms by (simp_all add: cobp_def coreg_def FAILED_def)

lemma malformed_clsid:
  assumes "SUCCEEDED (QueryInterface E)" and "3 \<le> length (split_args args)"
    and "FAILED (fst (try_parse_guid E (split_args args ! 0)))"
  shows "cobp E s args = (Returned (fst (try_parse_guid E (split_args args ! 0))), [], s)"
    and "coreg E s args = (Returned (fst (try_parse_guid E (split_args args ! 0))), [], s)"
  using assms by (auto simp: cobp_def coreg_def FAILED_def Let_def split: prod.splits)

lemma malformed_iid:
  assumes "SUCCEEDED (QueryInterface E)" and "3 \<le> length (split_args args)"
    and "SUCCEEDED (fst (try_parse_guid E (split_args args ! 0)))"
    and "FAILED (fst (try_parse_guid E (split_args args ! 1)))"
  shows "cobp E s args = (Returned (fst (try_parse_guid E (split_args args ! 1))), [], s)"
    and "coreg E s args = (Returned (fst (try_parse_guid E (split_args args ! 1))), [], s)"
  using assms by (auto simp: cobp_def coreg_def FAILED_def Let_def split: prod.splits)

lemma split_sample_2nd:
  "split_args (sample_args ''2nd'')
     = [sample_clsid_text, sample_iid_text, ''2nd'']"
  by (simp add: sample_args_def split_args_def isspace_def sample_clsid_text_def sample_iid_text_def)

text \<open>
  Claim C9, as amended. With no monitor attached, each of \<^verbatim>\<open>cobp\<close>, \<^verbatim>\<open>cobl\<close>,
  \<^verbatim>\<open>cobd\<close> and \<^verbatim>\<open>coreg\<close> returns a failure code and leaves the session as it was,
  for every argument string; which failure is fixed in every case. When the control
  interface is refused, that refusal is returned and nothing is written. Otherwise
  \<^verbatim>\<open>cobl\<close> and \<^verbatim>\<open>cobd\<close> return \<^verbatim>\<open>E_FAIL\<close> with the "monitor not enabled" line, whatever
  the arguments. \<^verbatim>\<open>cobp\<close> and \<^verbatim>\<open>coreg\<close> check their arguments first: fewer than three
  tokens give \<^verbatim>\<open>E_INVALIDARG\<close> with the "invalid arguments" line; a first token that
  is no GUID gives the parser's failure code for it and no line; a second token that
  is no GUID likewise; only with three tokens of which the first two parse do they
  return \<^verbatim>\<open>E_FAIL\<close> with the "monitor not enabled" line.
\<close>

theorem commands_without_monitor:
  assumes "find_active_monitor s = None"
  shows "(SUCCEEDED (QueryInterface E) \<longrightarrow>
            cobl E s args = (Returned E_FAIL, [Error_text monitor_not_enabled_error], s)
          \<and> cobd E s args = (Returned E_FAIL, [Error_text monitor_not_enabled_error], s))
       \<and> (SUCCEEDED (QueryInterface E) \<and> 3 \<le> length (split_args args)
            \<and> SUCCEEDED (fst (try_parse_guid E (split_args args ! 0)))
            \<and> SUCCEEDED (fst (try_parse_guid E (split_args args ! 1))) \<longrightarrow>
            cobp E s args = (Returned E_FAIL, [Error_text monitor_not_enabled_error], s)
          \<and> coreg E s args = (Returned E_FAIL, [Error_text monitor_not_enabled_error], s))
       \<and> (SUCCEEDED (QueryInterface E) \<and> length (split_args args) < 3 \<longrightarrow>
            cobp E s args = (Returned E_INVALIDARG, [Error_text invalid_arguments_error], s)
          \<and> coreg E s args = (Returned E_INVALIDARG, [Error_text invalid_arguments_error], s))
       \<and> (SUCCEEDED (QueryInterface E) \<and> 3 \<le> length (split_args args)
            \<and> FAILED (fst (try_parse_guid E (split_args args ! 0))) \<longrightarrow>
            cobp E s args = (Returned (fst (try_parse_guid E (split_args args ! 0))), [], s)
          \<and> coreg E s args = (Returned (fst (try_parse_guid E (split_args args ! 0))), [], s))
       \<and> (SUCCEEDED (QueryInterface E) \<and> 3 \<le> length (split_args args)
            \<and> SUCCEEDED (fst (try_parse_guid E (split_args args ! 0)))
            \<and> FAILED (fst (try_parse_guid E (split_args args ! 1))) \<longrightarrow>
            cobp E s args = (Returned (fst (try_parse_guid E (split_args args ! 1))), [], s)
          \<and> coreg E s args = (Returned (fst (try_parse_guid E (split_args args ! 1))), [], s))
       \<and> (FAILED (QueryInterface E) \<longrightarrow>
            cobp E s args = (Returned (QueryInterface E), [], s)
          \<and> cobl E s args = (Returned (QueryInterface E), [], s)
          \<and> cobd E s args = (Returned (QueryInterface E), [], s)
          \<and> coreg E s args = (Returned (QueryInterface E), [], s))
       \<and> (\<exists>hr out. cobp E s args = (Returned hr, out, s) \<and> FAILED hr)
       \<and> (\<exists>hr out. cobl E s args = (Returned hr, out, s) \<and> FAILED hr)
       \<and> (\<exists>hr out. cobd E s args = (Returned hr, out, s) \<and> FAILED hr)
       \<and> (\<exists>hr out. coreg E s args = (Returned hr, out, s) \<and> FAILED hr)"
proof -
  have c1: "SUCCEEDED (QueryInterface E) \<longrightarrow>
            cobl E s args = (Returned E_FAIL, [Error_text monitor_not_enabled_error], s)
          \<and> cobd E s args = (Returned E_FAIL, [Error_text monitor_not_enabled_error], s)"
    using assms cobl_no_monitor [of s E args] cobd_no_monitor [of s E args] by simp
  have c2: "SUCCEEDED (QueryInterface E) \<and> 3 \<le> length (split_args args)
            \<and> SUCCEEDED (fst (try_parse_guid E (split_args args ! 0)))
            \<and> SUCCEEDED (fst (try_parse_guid E (split_args args ! 1))) \<longrightarrow>
            cobp E s args = (Returned E_FAIL, [Error_text monitor_not_enabled_error], s)
          \<and> coreg E s args = (Returned E_FAIL, [Error_text monitor_not_enabled_error], s)"
    using assms cobp_no_monitor [of s E args] coreg_no_monitor [of s E args] by simp
  have c3: "SUCCEEDED (QueryInterface E) \<and> length (split_args args) < 3 \<longrightarrow>
            cobp E s args = (Returned E_INVALIDARG, [Error_text invalid_arguments_error], s)
          \<and> coreg E s args = (Returned E_INVALIDARG, [Error_text invalid_arguments_error], s)"
    using too_few_arguments [of E args s] by simp
  have c4: "SUCCEEDED (QueryInterface E) \<and> 3 \<le> length (split_args args)
            \<and> FAILED (fst (try_parse_guid E (split_args args ! 0))) \<longrightarrow>
            cobp E s args = (Returned (fst (try_parse_guid E (split_args args ! 0))), [], s)
          \<and> coreg E s args = (Returned (fst (try_parse_guid E (split_args args ! 0))), [], s)"
    using malformed_clsid [of E args s] by simp
  have c5: "SUCCEEDED (QueryInterface E) \<and> 3 \<le> length (split_args args)
            \<and> SUCCEEDED (fst (try_parse_guid E (split_args args ! 0)))
            \<and> FAILED (fst (try_parse_guid E (split_args args ! 1))) \<longrightarrow>
            cobp E s args = (Returned (fst (try_parse_guid E (split_args args ! 1))), [], s)
          \<and> coreg E s args = (Returned (fst (try_parse_guid E (split_args args ! 1))), [], s)"
    using malformed_iid [of E args s] by simp
  have c6: "FAILED (QueryInterface E) \<longrightarrow>
            cobp E s args = (Returned (QueryInterface E), [], s)
          \<and> cobl E s args = (Returned (QueryInterface E), [], s)
          \<and> cobd E s args = (Returned (QueryInterface E), [], s)
          \<and> coreg E s args = (Returned (QueryInterface E), [], s)"
    using query_failed [of E s args] by simp
  show ?thesis
    by (intro conjI c1 c2 c3 c4 c5 c6 cobp_no_monitor_fails [OF assms]
        cobl_no_monitor_fails [OF assms] cobd_no_monitor_fails [OF assms]
        coreg_no_monitor_fails [OF assms])
qed

lemma split_malformed:
  "split_args ''clsid iid 4096'' = [''clsid'', ''iid'', ''4096'']"
  "split_args (sample_clsid_text @ '' iid 4096'') = [sample_clsid_text, ''iid'', ''4096'']"
  "split_args ''7'' = [''7'']"
  "split_args [] = []"
  by (simp_all add: split_args_def isspace_def sample_clsid_text_def)

lemma sample_parser_rejects:
  "sample_parser ''clsid'' = (E_ENGINE InvalidGuidFormat, 0)"
  "sample_parser ''iid'' = (E_ENGINE InvalidGuidFormat, 0)"
  by (simp_all add: sample_parser_def sample_clsid_text_def sample_iid_text_def)

text \<open>
  The amended claim C9 on the sample session with no monitor: one argument string
  for each case, and a debugger client that refuses the control interface.
\<close>

theorem commands_without_monitor_witness:
  "find_active_monitor detached_session = None
   \<and> SUCCEEDED (QueryInterface sample_extern)
   \<and> cobl sample_extern detached_session ''''
        = (Returned E_FAIL, [Error_text monitor_not_enabled_error], detached_session)
   \<and> cobd sample_extern detached_session ''7''
        = (Returned E_FAIL, [Error_text monitor_not_enabled_error], detached_session)
   \<and> cobp sample_extern detached_session (sample_args ''2nd'')
        = (Returned E_FAIL, [Error_text monitor_not_enabled_error], detached_session)
   \<and> coreg sample_extern detached_session (sample_args ''2nd'')
        = (Returned E_FAIL, [Error_text monitor_not_enabled_error], detached_session)
   \<and> length (split_args ''7'') < 3
   \<and> cobp sample_extern detached_session ''7''
        = (Returned E_INVALIDARG, [Error_text invalid_arguments_error], detached_session)
   \<and> coreg sample_extern detached_session ''7''
        = (Returned E_INVALIDARG, [Error_text invalid_arguments_error], detached_session)
   \<and> 3 \<le> length (split_args ''clsid iid 4096'')
   \<and> FAILED (fst (try_parse_guid sample_extern (split_args ''clsid iid 4096'' ! 0)))
   \<and> cobp sample_extern detached_session ''clsid iid 4096''
        = (Returned (E_ENGINE InvalidGuidFormat), [], detached_session)
   \<and> coreg sample_extern detached_session ''clsid iid 4096''
        = (Returned (E_ENGINE InvalidGuidFormat), [], detached_session)
   \<and> FAILED (fst (try_parse_guid sample_extern
         (split_args (sample_clsid_text @ '' iid 4096'') ! 1)))
   \<and> cobp sample_extern detached_session (sample_clsid_text @ '' iid 4096'')
        = (Returned (E_ENGINE InvalidGuidFormat), [], detached_session)
   \<and> FAILED (QueryInterface (sample_extern\<lparr>QueryInterface := E_FAIL\<rparr>))
   \<and> cobl (sample_extern\<lparr>QueryInterface := E_FAIL\<rparr>) detached_session ''''
        = (Returned E_FAIL, [], detached_session)"
proof -
  have h: "find_active_monitor detached_session = None"
    by (simp add: find_active_monitor_def detached_session_def)
  have q: "SUCCEEDED (QueryInterface sample_extern)"
    by (simp add: sample_extern_def)
  have p: "try_parse_guid sample_extern = sample_parser"
    by (simp add: sample_extern_def)
  have g: "3 \<le> length (split_args (sample_args ''2nd''))
      \<and> SUCCEEDED (fst (try_parse_guid sample_extern
            (split_args (sample_args ''2nd'') ! 0)))
      \<and> SUCCEEDED (fst (try_parse_guid sample_extern
            (split_args (sample_args ''2nd'') ! 1)))"
    by (simp add: split_sample_2nd sample_extern_def sample_parser_def)
  have few: "length (split_args ''7'') < 3"
    by (simp add: split_malformed)
  have bad1: "3 \<le> length (split_args ''clsid iid 4096'')"
    "FAILED (fst (try_parse_guid sample_extern (split_args ''clsid iid 4096'' ! 0)))"
    "fst (try_parse_guid sample_extern (split_args ''clsid iid 4096'' ! 0))
       = E_ENGINE InvalidGuidFormat"
    by (simp_all add: split_malformed p sample_parser_rejects FAILED_def)
  have bad2: "3 \<le> length (split_args (sample_clsid_text @ '' iid 4096''))"
    "SUCCEEDED (fst (try_parse_guid sample_extern
        (split_args (sample_clsid_text @ '' iid 4096'') ! 0)))"
    "FAILED (fst (try_parse_guid sample_extern
        (split_args (sample_clsid_text @ '' iid 4096'') ! 1)))"
    "fst (try_parse_guid sample_extern (split_args (sample_clsid_text @ '' iid 4096'') ! 1))
       = E_ENGINE InvalidGuidFormat"
    unfolding split_malformed p
    by (simp_all add: sample_parser_rejects FAILED_def)
      (simp add: sample_parser_def)
  have qf: "FAILED (QueryInterface (sample_extern\<lparr>QueryInterface := E_FAIL\<rparr>))"
    "QueryInterface (sample_extern\<lparr>QueryInterface := E_FAIL\<rparr>) = E_FAIL"
    by (simp_all add: FAILED_def)
  note on_empty = commands_without_monitor [OF h, of sample_extern "''''"]
  note on_7 = commands_without_monitor [OF h, of sample_extern "''7''"]
  note on_2nd = commands_without_monitor [OF h, of sample_extern "sample_args ''2nd''"]
  note on_bad1 = commands_without_monitor [OF h, of sample_extern "''clsid iid 4096''"]
  note on_bad2 = commands_without_monitor [OF h, of sample_extern
      "sample_clsid_text @ '' iid 4096''"]
  note on_refused = commands_without_monitor [OF h,
      of "sample_extern\<lparr>QueryInterface := E_FAIL\<rparr>" "''''"]
  have r1: "cobl sample_extern detached_session ''''
        = (Returned E_FAIL, [Error_text monitor_not_enabled_error], detached_session)"
    using on_empty q by blast
  have r2: "cobd sample_extern detached_session ''7''
        = (Returned E_FAIL, [Error_text monitor_not_enabled_error], detached_session)"
    using on_7 q by blast
  have r3: "cobp sample_extern detached_session (sample_args ''2nd'')
        = (Returned E_FAIL, [Error_text monitor_not_enabled_error], detached_session)
      \<and> coreg sample_extern detached_session (sample_args ''2nd'')
        = (Returned E_FAIL, [Error_text monitor_not_enabled_error], detached_session)"
    using on_2nd q g by blast
  have r4: "cobp sample_extern detached_session ''7''
        = (Returned E_INVALIDARG, [Error_text invalid_arguments_error], detached_session)
      \<and> coreg sample_extern detached_session ''7''
        = (Returned E_INVALIDARG, [Error_text invalid_arguments_error], detached_session)"
    using on_7 q few by blast
  have "cobp sample_extern detached_session ''clsid iid 4096''
        = (Returned (fst (try_parse_guid sample_extern (split_args ''clsid iid 4096'' ! 0))), [],
           detached_session)
      \<and> coreg sample_extern detached_session ''clsid iid 4096''
        = (Returned (fst (try_parse_guid sample_extern (split_args ''clsid iid 4096'' ! 0))), [],
           detached_session)"
    using on_bad1 q bad1(1,2) by blast
  then have r5: "cobp sample_extern detached_session ''clsid iid 4096''
        = (Returned (E_ENGINE InvalidGuidFormat), [], detached_session)
      \<and> coreg sample_extern detached_session ''clsid iid 4096''
        = (Returned (E_ENGINE InvalidGuidFormat), [], detached_session)"
    unfolding bad1(3) .
  have "cobp sample_extern detached_session (sample_clsid_text @ '' iid 4096'')
        = (Returned (fst (try_parse_guid sample_extern
              (split_args (sample_clsid_text @ '' iid 4096'') ! 1))), [], detached_session)"
    using on_bad2 q bad2(1,2,3) by blast
  then have r6: "cobp sample_extern detached_session (sample_clsid_text @ '' iid 4096'')
        = (Returned (E_ENGINE InvalidGuidFormat), [], detached_session)"
    unfolding bad2(4) .
  have "cobl (sample_extern\<lparr>QueryInterface := E_FAIL\<rparr>) detached_session ''''
        = (Returned (QueryInterface (sample_extern\<lparr>QueryInterface := E_FAIL\<rparr>)), [],
           detached_session)"
    using on_refused qf(1) by blast
  then have r7: "cobl (sample_extern\<lparr>QueryInterface := E_FAIL\<rparr>) detached_session ''''
        = (Returned E_FAIL, [], detached_session)"
    unfolding qf(2) .
  show ?thesis
    using h q r1 r2 r3 r4 few bad1(1,2) r5 bad2(3) r6 qf(1) r7 by blast
qed

text \<open>
  Claim C9 as stated fails for \<^verbatim>\<open>cobp\<close> and \<^verbatim>\<open>coreg\<close>: with no monitor attached, an
  empty argument string gives \<^verbatim>\<open>E_INVALIDARG\<close> and the "invalid arguments" line, and a
  first token that is no GUID gives the parser's failure code and no line at all.
\<close>

theorem cobp_without_monitor_counterexample:
  "find_active_monitor detached_session = None
   \<and> cobp sample_extern detached_session ''''
        = (Returned E_INVALIDARG, [Error_text invalid_arguments_error], detached_session)
   \<and> fst (cobp sample_extern detached_session '''') \<noteq> Returned E_FAIL
   \<and> coreg sample_extern detached_session ''clsid iid 4096''
        = (Returned (E_ENGINE InvalidGuidFormat), [], detached_session)
   \<and> fst (coreg sample_extern detached_session ''clsid iid 4096'') \<noteq> Returned E_FAIL"
  by (simp add: cobp_def coreg_def split_args_def isspace_def sample_extern_def
      detached_session_def find_active_monitor_def FAILED_def sample_parser_def
      sample_clsid_text_def sample_iid_text_def)

subsection \<open>Numeric arguments outside a try block\<close>

lemma cobd_conversion_throws:
  "SUCCEEDED (QueryInterface E) \<Longrightarrow> find_active_monitor s = Some m \<Longrightarrow> stoul args = Inl ex \<Longrightarrow>
   cobd E s args = (Escaped ex, [], s)"
  by (simp add: cobd_def FAILED_def)

lemma coreg_conversion_throws:
  "SUCCEEDED (QueryInterface E) \<Longrightarrow> split_args args = ctok # itok # atok # rest \<Longrightarrow>
   SUCCEEDED (fst (try_parse_guid E ctok)) \<Longrightarrow> SUCCEEDED (fst (try_parse_guid E itok)) \<Longrightarrow>
   find_active_monitor s = Some m \<Longrightarrow> stoull atok = Inl ex \<Longrightarrow>
   coreg E s args = (Escaped ex, [], s)"
  by (auto simp: coreg_def FAILED_def Let_def split: prod.splits)

lemma split_sample_vtable:
  "split_args (sample_args ''vtable'') = [sample_clsid_text, sample_iid_text, ''vtable'']"
  by (simp add: sample_args_def split_args_def isspace_def sample_clsid_text_def sample_iid_text_def)

lemma split_sample_big:
  "split_args (sample_args ''4294967296'') = [sample_clsid_text, sample_iid_text, ''4294967296'']"
  by (simp add: sample_args_def split_args_def isspace_def sample_clsid_text_def sample_iid_text_def)

lemma sample_parser_simps:
  "sample_parser sample_clsid_text = (S_OK, sample_clsid)"
  "sample_parser sample_iid_text = (S_OK, sample_iid)"
  by (simp_all add: sample_parser_def sample_clsid_text_def sample_iid_text_def)

lemma sample_extern_simps:
  "QueryInterface sample_extern = S_OK"
  "try_parse_guid sample_extern = sample_parser"
  "place_breakpoint sample_extern a = (a \<noteq> 0)"
  "remove_breakpoint sample_extern a = True"
  "module_of sample_extern a = ''combase''"
  "describe sample_extern c i sel = ''cobreakpoint''"
  by (simp_all add: sample_extern_def)

lemma stoul_abc: "stoul ''abc'' = Inl invalid_argument"
  by (simp add: stoul_def strtou_def isspace_def isdigit_def)

lemma stoull_vtable: "stoull ''vtable'' = Inl invalid_argument"
  by (simp add: stoull_def strtou_def isspace_def isdigit_def)

lemma stoul_big: "stoul ''4294967296'' = Inl out_of_range"
  by (simp add: stoul_def strtou_def isspace_def isdigit_def decimal_value_def digit_value_def)

text \<open>
  Claim C2 does not hold of the code. With a monitor attached, \<^verbatim>\<open>cobd\<close> evaluates
  \<^verbatim>\<open>std::stoul(args)\<close> and \<^verbatim>\<open>coreg\<close> evaluates \<^verbatim>\<open>std::stoull(vargs[2])\<close> outside any
  \<^verbatim>\<open>try\<close> block: on a non-numeric argument \<^verbatim>\<open>std::invalid_argument\<close> leaves the
  handler. \<^verbatim>\<open>cobp\<close> catches \<^verbatim>\<open>std::invalid_argument\<close> only, so an index beyond
  32 bits leaves it with \<^verbatim>\<open>std::out_of_range\<close>. The session is unchanged in each
  case; no \<^verbatim>\<open>HRESULT\<close> is returned.
\<close>

theorem conversion_exception_escapes:
  "find_active_monitor attached_session = Some (new_monitor no_filter)
   \<and> cobd sample_extern attached_session ''abc''
        = (Escaped invalid_argument, [], attached_session)
   \<and> cobd sample_extern attached_session ''4294967296''
        = (Escaped out_of_range, [], attached_session)
   \<and> coreg sample_extern attached_session (sample_args ''vtable'')
        = (Escaped invalid_argument, [], attached_session)
   \<and> cobp sample_extern attached_session (sample_args ''4294967296'')
        = (Escaped out_of_range, [], attached_session)"
proof -
  have m: "find_active_monitor attached_session = Some (new_monitor no_filter)"
    by (simp add: find_active_monitor_def attached_session_def)
  have "cobd sample_extern attached_session ''abc''
        = (Escaped invalid_argument, [], attached_session)"
    by (simp add: cobd_def FAILED_def m stoul_abc sample_extern_simps)
  moreover have "cobd sample_extern attached_session ''4294967296''
        = (Escaped out_of_range, [], attached_session)"
    by (simp add: cobd_def FAILED_def m stoul_big sample_extern_simps)
  moreover have "coreg sample_extern attached_session (sample_args ''vtable'')
        = (Escaped invalid_argument, [], attached_session)"
    by (simp add: coreg_def FAILED_def m split_sample_vtable stoull_vtable
        sample_extern_simps sample_parser_simps)
  moreover have "cobp sample_extern attached_session (sample_args ''4294967296'')
        = (Escaped out_of_range, [], attached_session)"
    by (simp add: cobp_def FAILED_def m split_sample_big stoul_big
        sample_extern_simps sample_parser_simps)
  ultimately show ?thesis using m by simp
qed

subsection \<open>The command \<^verbatim>\<open>comon attach\<close>\<close>

lemma comon_attach_active:
  "find_active_monitor s = Some m \<Longrightarrow> split_args args = ''attach'' # rest \<Longrightarrow>
   SUCCEEDED (QueryInterface E) \<Longrightarrow>
   comon E s args = (Returned E_FAIL, [Error_text already_enabled_error], s)"
  by (simp add: comon_def FAILED_def)

lemma comon_attach_active_fails:
  "find_active_monitor s = Some m \<Longrightarrow> split_args args = ''attach'' # rest \<Longrightarrow>
   \<exists>hr out. comon E s args = (Returned hr, out, s) \<and> FAILED hr"
  by (simp add: comon_def FAILED_def)

lemma attach_active: "find_active_monitor s = Some m \<Longrightarrow> attach f s = Inl AlreadyAttached"
  by (simp add: attach_def find_active_monitor_def)

lemma attach_detached:
  "find_active_monitor s = None \<Longrightarrow> attach f s = Inr (set_monitor s (new_monitor f))"
  by (simp add: attach_def find_active_monitor_def set_monitor_def)

lemma comon_attach_detached:
  "find_active_monitor s = None \<Longrightarrow> split_args args = ''attach'' # rest \<Longrightarrow>
   SUCCEEDED (QueryInterface E) \<Longrightarrow>
   comon E s args =
     (Returned S_OK,
      Normal_text monitor_enabled_message # print_filter (parse_filter (try_parse_guid E) rest),
      set_monitor s (new_monitor (parse_filter (try_parse_guid E) rest)))"
  by (simp add: comon_def FAILED_def attach_detached drop_Suc Let_def)

text \<open>
  Claim C5. For every filter argument \<open>rest\<close>: \<^verbatim>\<open>comon attach\<close> while a monitor is
  active fails and leaves the session, with its monitor, as it was; once the control
  interface was obtained the failure is \<^verbatim>\<open>E_FAIL\<close> with the "already enabled" line,
  and the session's own \<^verbatim>\<open>attach\<close> would refuse with \<open>AlreadyAttached\<close>. With no
  monitor active the command succeeds and the session holds a new monitor whose
  filter is the one parsed from \<open>rest\<close>; the metadata store is untouched.
\<close>

theorem attach_command:
  "(find_active_monitor s = Some m \<and> split_args args = ''attach'' # rest \<longrightarrow>
      (\<exists>hr out. comon E s args = (Returned hr, out, s) \<and> FAILED hr)
      \<and> (SUCCEEDED (QueryInterface E) \<longrightarrow>
           comon E s args = (Returned E_FAIL, [Error_text already_enabled_error], s))
      \<and> attach f s = Inl AlreadyAttached)
   \<and> (find_active_monitor s = None \<and> split_args args = ''attach'' # rest
        \<and> SUCCEEDED (QueryInterface E) \<longrightarrow>
      comon E s args =
        (Returned S_OK,
         Normal_text monitor_enabled_message # print_filter (parse_filter (try_parse_guid E) rest),
         set_monitor s (new_monitor (parse_filter (try_parse_guid E) rest)))
      \<and> find_active_monitor (snd (snd (comon E s args)))
           = Some (new_monitor (parse_filter (try_parse_guid E) rest))
      \<and> monitor_filter (new_monitor (parse_filter (try_parse_guid E) rest))
           = parse_filter (try_parse_guid E) rest
      \<and> get_metadata (snd (snd (comon E s args))) = get_metadata s)"
proof -
  have "get_metadata (set_monitor s (new_monitor (parse_filter (try_parse_guid E) rest)))
          = get_metadata s"
    by (simp add: get_metadata_def set_monitor_def)
  then show ?thesis
    using comon_attach_active [of s m args rest E] comon_attach_active_fails [of s m args rest E]
      attach_active [of s m f] comon_attach_detached [of s args rest E]
    by (simp add: find_set_monitor new_monitor_def)
qed

lemma split_attach_sample:
  "split_args (''attach -e '' @ sample_clsid_text) = [''attach'', ''-e'', sample_clsid_text]"
  by (simp add: split_args_def isspace_def sample_clsid_text_def)

text \<open>
  Claim C5 on the sample sessions, for the filter arguments \<open>-e\<close> and the class id.
\<close>

theorem attach_command_witness:
  "find_active_monitor attached_session = Some (new_monitor no_filter)
   \<and> find_active_monitor detached_session = None
   \<and> split_args (''attach -e '' @ sample_clsid_text) = ''attach'' # [''-e'', sample_clsid_text]
   \<and> SUCCEEDED (QueryInterface sample_extern)
   \<and> comon sample_extern attached_session (''attach -e '' @ sample_clsid_text)
        = (Returned E_FAIL, [Error_text already_enabled_error], attached_session)
   \<and> comon sample_extern detached_session (''attach -e '' @ sample_clsid_text)
        = (Returned S_OK,
           [Normal_text monitor_enabled_message,
            Normal_text excluding_header, Clsid_lines {sample_clsid}],
           set_monitor detached_session (new_monitor (excluding_filter {sample_clsid})))"
proof -
  have m: "find_active_monitor attached_session = Some (new_monitor no_filter)"
    by (simp add: find_active_monitor_def attached_session_def)
  have n: "find_active_monitor detached_session = None"
    by (simp add: find_active_monitor_def detached_session_def)
  have t: "split_args (''attach -e '' @ sample_clsid_text) = ''attach'' # [''-e'', sample_clsid_text]"
    by (simp only: split_attach_sample)
  have q: "SUCCEEDED (QueryInterface sample_extern)"
    by (simp add: sample_extern_simps)
  have f: "parse_filter (try_parse_guid sample_extern) [''-e'', sample_clsid_text]
             = excluding_filter {sample_clsid}"
    by (simp add: parse_filter_def sample_extern_simps sample_parser_def
        sample_clsid_text_def sample_iid_text_def)
  have a: "comon sample_extern attached_session (''attach -e '' @ sample_clsid_text)
        = (Returned E_FAIL, [Error_text already_enabled_error], attached_session)"
    using attach_command [of attached_session "new_monitor no_filter"
        "''attach -e '' @ sample_clsid_text" "[''-e'', sample_clsid_text]" sample_extern]
      m t q by blast
  have "comon sample_extern detached_session (''attach -e '' @ sample_clsid_text) =
        (Returned S_OK,
         Normal_text monitor_enabled_message
           # print_filter (parse_filter (try_parse_guid sample_extern) [''-e'', sample_clsid_text]),
         set_monitor detached_session
           (new_monitor (parse_filter (try_parse_guid sample_extern) [''-e'', sample_clsid_text])))"
    using attach_command [of detached_session "new_monitor no_filter"
        "''attach -e '' @ sample_clsid_text" "[''-e'', sample_clsid_text]" sample_extern]
      n t q by blast
  then have b: "comon sample_extern detached_session (''attach -e '' @ sample_clsid_text)
        = (Returned S_OK,
           [Normal_text monitor_enabled_message,
            Normal_text excluding_header, Clsid_lines {sample_clsid}],
           set_monitor detached_session (new_monitor (excluding_filter {sample_clsid})))"
    by (simp add: f)
  show ?thesis using m n t q a b by blast
qed

subsection \<open>Registration through \<^verbatim>\<open>coreg\<close>\<close>

lemma find_None_iff_list_ex: "find P xs = None \<longleftrightarrow> \<not> list_ex P xs"
  by (auto simp: find_None_iff list_ex_iff)

lemma find_append_fresh:
  "find P xs = None \<Longrightarrow> P x \<Longrightarrow> find P (xs @ [x]) = Some x"
  by (induction xs) (auto split: if_splits)

lemma observed_record_simps:
  "vt_module_name (observed_record E c i a is64) = module_of E a"
  "vt_clsid (observed_record E c i a is64) = c"
  "vt_iid (observed_record E c i a is64) = i"
  "vt_is_64bit (observed_record E c i a is64) = is64"
  "vt_address (observed_record E c i a is64) = a"
  by (simp_all add: observed_record_def)

lemma observed_record_matches:
  "matches c i (observed_record E c i a is64)"
  "same_vtable c i a (observed_record E c i a is64)"
  by (simp_all add: matches_def same_vtable_def observed_record_simps)

lemma registry_register_result:
  "registry_register E f c i a is64 recs =
     (if decide f c \<and> find (same_vtable c i a) recs = None
      then recs @ [observed_record E c i a is64] else recs)"
  by (simp add: registry_register_def)

lemma registry_register_present:
  "decide f c \<Longrightarrow> list_ex (same_vtable c i a) (registry_register E f c i a is64 recs)"
  by (auto simp: registry_register_result observed_record_matches find_None_iff_list_ex)

lemma register_vtable_paused: "paused m \<Longrightarrow> register_vtable E m c i a is64 = (S_OK, m)"
  by (simp add: register_vtable_def)

lemma register_vtable_S_OK: "fst (register_vtable E m c i a is64) = S_OK"
  by (simp add: register_vtable_def)

lemma register_vtable_frame:
  "breakpoints (snd (register_vtable E m c i a is64)) = breakpoints m"
  "paused (snd (register_vtable E m c i a is64)) = paused m"
  "monitor_filter (snd (register_vtable E m c i a is64)) = monitor_filter m"
  "next_id (snd (register_vtable E m c i a is64)) = next_id m"
  by (simp_all add: register_vtable_def)

lemma register_vtable_registry:
  "registry (snd (register_vtable E m c i a is64)) =
     (if \<not> paused m \<and> decide (monitor_filter m) c \<and> find (same_vtable c i a) (registry m) = None
      then registry m @ [observed_record E c i a is64] else registry m)"
  by (simp add: register_vtable_def registry_register_result)

lemma register_vtable_unchanged:
  "paused m \<or> \<not> decide (monitor_filter m) c \<or> find (same_vtable c i a) (registry m) \<noteq> None \<Longrightarrow>
   register_vtable E m c i a is64 = (S_OK, m)"
  by (auto simp: register_vtable_def registry_register_result)

lemma register_vtable_added:
  "\<not> paused m \<Longrightarrow> decide (monitor_filter m) c \<Longrightarrow> find (same_vtable c i a) (registry m) = None \<Longrightarrow>
   register_vtable E m c i a is64 =
     (S_OK, m\<lparr>registry := registry m @ [observed_record E c i a is64]\<rparr>)"
  by (simp add: register_vtable_def registry_register_result)

lemma matches_no_same: "find (matches c i) recs = None \<Longrightarrow> find (same_vtable c i a) recs = None"
  by (auto simp: find_None_iff matches_def same_vtable_def)

lemma breakpoint_address_found:
  "find (matches c i) recs = Some r \<Longrightarrow>
   breakpoint_address recs c i n = Inr (vt_address r + ucast n * pointer_width r)"
  by (simp add: breakpoint_address_def)

lemma selector_address_index:
  "find (matches c i) (registry m) = Some r \<Longrightarrow>
   selector_address meta m c i (by_index n) = Inr (vt_address r + ucast n * pointer_width r)"
  by (simp add: selector_address_def resolve_selector_def)

lemma coreg_registers:
  assumes "SUCCEEDED (QueryInterface E)"
    and "split_args args = ctok # itok # atok # rest"
    and "try_parse_guid E ctok = (hc, c)" and "SUCCEEDED hc"
    and "try_parse_guid E itok = (hi, i)" and "SUCCEEDED hi"
    and "find_active_monitor s = Some m"
    and "stoull atok = Inr a"
  shows "coreg E s args =
           (Returned S_OK, [], set_monitor s (snd (register_vtable E m c i a False)))"
  using assms by (simp add: coreg_def FAILED_def Let_def register_vtable_def)

lemma get_metadata_set_monitor: "get_metadata (set_monitor s m) = get_metadata s"
  by (simp add: get_metadata_def set_monitor_def)

text \<open>
  Claim C10. Whenever \<^verbatim>\<open>coreg\<close> reaches the monitor with a converted address, the
  call is \<^verbatim>\<open>register_vtable(clsid, iid, vtable_addr, false)\<close>: the handler returns
  \<^verbatim>\<open>S_OK\<close>, and the session's monitor afterwards is the one that call leaves. Its
  registry has one more record exactly when the monitor is running, observes the
  class and holds no record of the same (clsid, iid, address); otherwise the registry
  is as before. The record is the observation with the 64-bit flag false, whatever
  the debuggee: its pointer width is 4, and in every registry where the lookup of
  (clsid, iid) finds it, the breakpoint address of method index \<open>n\<close> is the vtable
  address plus \<open>4 * n\<close>. In particular, when no vtable of (clsid, iid) was known, the
  session after \<^verbatim>\<open>coreg\<close> holds the record and gives that address.
\<close>

theorem coreg_registers_32bit:
  assumes "SUCCEEDED (QueryInterface E)"
    and "split_args args = ctok # itok # atok # rest"
    and "try_parse_guid E ctok = (hc, c)" and "SUCCEEDED hc"
    and "try_parse_guid E itok = (hi, i)" and "SUCCEEDED hi"
    and "find_active_monitor s = Some m"
    and "stoull atok = Inr a"
  shows "coreg E s args =
           (Returned S_OK, [], set_monitor s (snd (register_vtable E m c i a False)))
       \<and> find_active_monitor (snd (snd (coreg E s args)))
            = Some (snd (register_vtable E m c i a False))
       \<and> get_metadata (snd (snd (coreg E s args))) = get_metadata s
       \<and> registry (snd (register_vtable E m c i a False)) =
            (if \<not> paused m \<and> decide (monitor_filter m) c
                \<and> find (same_vtable c i a) (registry m) = None
             then registry m @ [observed_record E c i a False] else registry m)
       \<and> breakpoints (snd (register_vtable E m c i a False)) = breakpoints m
       \<and> paused (snd (register_vtable E m c i a False)) = paused m
       \<and> monitor_filter (snd (register_vtable E m c i a False)) = monitor_filter m
       \<and> observed_record E c i a False =
            \<lparr>vt_module_name = module_of E a, vt_clsid = c, vt_iid = i,
             vt_is_64bit = False, vt_address = a\<rparr>
       \<and> pointer_width (observed_record E c i a False) = 4
       \<and> (find (matches c i) recs = Some (observed_record E c i a False) \<longrightarrow>
            breakpoint_address recs c i n = Inr (a + ucast n * 4))
       \<and> (\<not> paused m \<and> decide (monitor_filter m) c \<and> find (matches c i) (registry m) = None \<longrightarrow>
            (\<exists>m'. find_active_monitor (snd (snd (coreg E s args))) = Some m'
               \<and> registry m' = registry m @ [observed_record E c i a False]
               \<and> breakpoint_address (registry m') c i n = Inr (a + ucast n * 4)
               \<and> selector_address meta m' c i (by_index n) = Inr (a + ucast n * 4)))"
proof -
  let ?r = "observed_record E c i a False"
  let ?m' = "snd (register_vtable E m c i a False)"
  have run: "coreg E s args = (Returned S_OK, [], set_monitor s ?m')"
    by (rule coreg_registers [OF assms])
  have after: "find_active_monitor (snd (snd (coreg E s args))) = Some ?m'"
    by (simp add: run find_set_monitor)
  have meta: "get_metadata (snd (snd (coreg E s args))) = get_metadata s"
    by (simp add: run get_metadata_set_monitor)
  have width: "pointer_width ?r = 4"
    by (simp add: pointer_width_def observed_record_simps)
  have derived: "breakpoint_address recs c i n = Inr (a + ucast n * 4)"
    if "find (matches c i) recs = Some ?r" for recs
    using breakpoint_address_found [OF that, of n] width
    by (simp add: observed_record_simps)
  have fresh: "\<exists>m'. find_active_monitor (snd (snd (coreg E s args))) = Some m'
               \<and> registry m' = registry m @ [?r]
               \<and> breakpoint_address (registry m') c i n = Inr (a + ucast n * 4)
               \<and> selector_address meta m' c i (by_index n) = Inr (a + ucast n * 4)"
    if r: "\<not> paused m" and d: "decide (monitor_filter m) c"
      and none: "find (matches c i) (registry m) = None"
  proof -
    have reg: "registry ?m' = registry m @ [?r]"
      using r d matches_no_same [OF none, of a] by (simp add: register_vtable_registry)
    have found: "find (matches c i) (registry ?m') = Some ?r"
      unfolding reg by (rule find_append_fresh [OF none observed_record_matches(1)])
    have "selector_address meta ?m' c i (by_index n) = Inr (a + ucast n * 4)"
      using selector_address_index [OF found, of meta n] width
      by (simp add: observed_record_simps)
    then show ?thesis
      using after reg derived [OF found] by blast
  qed
  have rec: "?r = \<lparr>vt_module_name = module_of E a, vt_clsid = c, vt_iid = i,
             vt_is_64bit = False, vt_address = a\<rparr>"
    by (simp add: observed_record_def)
  have c10: "find (matches c i) recs = Some ?r \<longrightarrow>
            breakpoint_address recs c i n = Inr (a + ucast n * 4)"
    using derived by blast
  have c11: "\<not> paused m \<and> decide (monitor_filter m) c \<and> find (matches c i) (registry m) = None \<longrightarrow>
            (\<exists>m'. find_active_monitor (snd (snd (coreg E s args))) = Some m'
               \<and> registry m' = registry m @ [?r]
               \<and> breakpoint_address (registry m') c i n = Inr (a + ucast n * 4)
               \<and> selector_address meta m' c i (by_index n) = Inr (a + ucast n * 4))"
    using fresh by blast
  show ?thesis
    by (intro conjI run after meta register_vtable_registry register_vtable_frame rec width
        c10 c11)
qed

lemma split_sample_4096:
  "split_args (sample_args ''4096'') = sample_clsid_text # sample_iid_text # ''4096'' # []"
  by (simp add: sample_args_def split_args_def isspace_def sample_clsid_text_def sample_iid_text_def)

lemma split_sample_3:
  "split_args (sample_args ''3'') = sample_clsid_text # sample_iid_text # ''3'' # []"
  by (simp add: sample_args_def split_args_def isspace_def sample_clsid_text_def sample_iid_text_def)

lemma stoull_4096: "stoull ''4096'' = Inr 4096"
  by (simp add: stoull_def strtou_def isspace_def isdigit_def decimal_value_def digit_value_def)

lemma stoul_3: "stoul ''3'' = Inr 3"
  by (simp add: stoul_def strtou_def isspace_def isdigit_def decimal_value_def digit_value_def)

lemma sample_record:
  "observed_record sample_extern sample_clsid sample_iid 4096 False
     = \<lparr>vt_module_name = ''combase'', vt_clsid = sample_clsid, vt_iid = sample_iid,
        vt_is_64bit = False, vt_address = 4096\<rparr>"
  by (simp add: observed_record_def sample_extern_simps)

text \<open>
  Claim C10 on the sample session: \<^verbatim>\<open>coreg\<close> with address 4096 leaves the 32-bit
  record in the session; \<^verbatim>\<open>cobp\<close> on method index 3 of that session then places its
  breakpoint at 4096 + 12, and \<^verbatim>\<open>cobl\<close> lists it.
\<close>

theorem coreg_registers_32bit_witness:
  "SUCCEEDED (QueryInterface sample_extern)
   \<and> split_args (sample_args ''4096'') = sample_clsid_text # sample_iid_text # ''4096'' # []
   \<and> try_parse_guid sample_extern sample_clsid_text = (S_OK, sample_clsid)
   \<and> try_parse_guid sample_extern sample_iid_text = (S_OK, sample_iid)
   \<and> SUCCEEDED S_OK
   \<and> find_active_monitor attached_session = Some (new_monitor no_filter)
   \<and> stoull ''4096'' = Inr 4096
   \<and> \<not> paused (new_monitor no_filter)
   \<and> decide (monitor_filter (new_monitor no_filter)) sample_clsid
   \<and> find (matches sample_clsid sample_iid) (registry (new_monitor no_filter)) = None
   \<and> coreg sample_extern attached_session (sample_args ''4096'')
        = (Returned S_OK, [],
           set_monitor attached_session
             ((new_monitor no_filter)
                \<lparr>registry := [\<lparr>vt_module_name = ''combase'', vt_clsid = sample_clsid,
                                 vt_iid = sample_iid, vt_is_64bit = False,
                                 vt_address = 4096\<rparr>]\<rparr>))
   \<and> find_active_monitor (snd (snd (coreg sample_extern attached_session (sample_args ''4096''))))
        = Some ((new_monitor no_filter)
                \<lparr>registry := [\<lparr>vt_module_name = ''combase'', vt_clsid = sample_clsid,
                                 vt_iid = sample_iid, vt_is_64bit = False,
                                 vt_address = 4096\<rparr>]\<rparr>)
   \<and> breakpoint_address
        [\<lparr>vt_module_name = ''combase'', vt_clsid = sample_clsid, vt_iid = sample_iid,
           vt_is_64bit = False, vt_address = 4096\<rparr>] sample_clsid sample_iid 3
        = Inr 4108
   \<and> fst (cobp sample_extern
        (snd (snd (coreg sample_extern attached_session (sample_args ''4096''))))
        (sample_args ''3'')) = Returned S_OK
   \<and> fst (snd (cobl sample_extern
        (snd (snd (cobp sample_extern
           (snd (snd (coreg sample_extern attached_session (sample_args ''4096''))))
           (sample_args ''3'')))) []))
        = [Breakpoint_line 0 ''cobreakpoint'' 4108]"
proof -
  let ?r = "\<lparr>vt_module_name = ''combase'', vt_clsid = sample_clsid, vt_iid = sample_iid,
             vt_is_64bit = False, vt_address = 4096\<rparr>"
  let ?m = "(new_monitor no_filter)\<lparr>registry := [?r]\<rparr>"
  have q: "SUCCEEDED (QueryInterface sample_extern)" by (simp add: sample_extern_simps)
  have t: "split_args (sample_args ''4096'') = sample_clsid_text # sample_iid_text # ''4096'' # []"
    by (rule split_sample_4096)
  have pc: "try_parse_guid sample_extern sample_clsid_text = (S_OK, sample_clsid)"
    by (simp add: sample_extern_simps sample_parser_simps)
  have pi: "try_parse_guid sample_extern sample_iid_text = (S_OK, sample_iid)"
    by (simp add: sample_extern_simps sample_parser_simps)
  have ok: "SUCCEEDED S_OK" by simp
  have m: "find_active_monitor attached_session = Some (new_monitor no_filter)"
    by (simp add: find_active_monitor_def attached_session_def)
  have a: "stoull ''4096'' = Inr 4096" by (rule stoull_4096)
  have run: "\<not> paused (new_monitor no_filter)"
    and obs: "decide (monitor_filter (new_monitor no_filter)) sample_clsid"
    and none: "find (matches sample_clsid sample_iid) (registry (new_monitor no_filter)) = None"
    and none': "find (same_vtable sample_clsid sample_iid 4096) (registry (new_monitor no_filter))
                  = None"
    by (simp_all add: new_monitor_def)
  note inst = coreg_registers_32bit [OF q t pc ok pi ok m a, of "[?r]" 3 sample_metadata]
  have reg: "snd (register_vtable sample_extern (new_monitor no_filter)
                sample_clsid sample_iid 4096 False) = ?m"
    using register_vtable_added [OF run obs none', of sample_extern False]
    by (simp add: sample_record new_monitor_def)
  have c1: "coreg sample_extern attached_session (sample_args ''4096'')
        = (Returned S_OK, [], set_monitor attached_session ?m)"
    using conjunct1 [OF inst] unfolding reg .
  have c2: "find_active_monitor (snd (snd (coreg sample_extern attached_session
              (sample_args ''4096'')))) = Some ?m"
    using conjunct1 [OF conjunct2 [OF inst]] unfolding reg .
  have found: "find (matches sample_clsid sample_iid) [?r]
                 = Some (observed_record sample_extern sample_clsid sample_iid 4096 False)"
    by (simp add: sample_record matches_def)
  have "breakpoint_address [?r] sample_clsid sample_iid 3 = Inr (4096 + ucast (3 :: DWORD) * 4)"
    using inst found by blast
  then have c3: "breakpoint_address [?r] sample_clsid sample_iid 3 = Inr 4108"
    by simp
  have after: "snd (snd (coreg sample_extern attached_session (sample_args ''4096'')))
                 = set_monitor attached_session ?m"
    by (simp add: c1)
  have create: "create_cobreakpoint sample_extern sample_metadata ?m sample_clsid sample_iid
        (by_index 3)
      = (S_OK, ?m\<lparr>breakpoints := [\<lparr>bp_id = 0, bp_description = ''cobreakpoint'',
                                       bp_address = 4108\<rparr>],
                  next_id := 1\<rparr>)"
    by (simp add: create_cobreakpoint_def breakpoint_create_def selector_address_def
        resolve_selector_def matches_def pointer_width_def sample_extern_simps new_monitor_def)
  have md: "get_metadata (set_monitor attached_session ?m) = sample_metadata"
    by (simp add: get_metadata_def set_monitor_def attached_session_def)
  have c4full: "cobp sample_extern (set_monitor attached_session ?m) (sample_args ''3'')
      = (Returned S_OK, [],
         set_monitor (set_monitor attached_session ?m)
           (?m\<lparr>breakpoints := [\<lparr>bp_id = 0, bp_description = ''cobreakpoint'',
                                       bp_address = 4108\<rparr>],
                next_id := 1\<rparr>))"
    by (simp add: cobp_def FAILED_def split_sample_3 stoul_3 sample_extern_simps
        sample_parser_simps find_set_monitor md create)
  have c4: "fst (cobp sample_extern
        (snd (snd (coreg sample_extern attached_session (sample_args ''4096''))))
        (sample_args ''3'')) = Returned S_OK"
    unfolding after c4full by simp
  have c5: "fst (snd (cobl sample_extern
        (snd (snd (cobp sample_extern
           (snd (snd (coreg sample_extern attached_session (sample_args ''4096''))))
           (sample_args ''3'')))) []))
        = [Breakpoint_line 0 ''cobreakpoint'' 4108]"
    unfolding after c4full
    by (simp add: cobl_def FAILED_def sample_extern_simps find_set_monitor list_breakpoints_def)
  show ?thesis
    using q t pc pi ok m a run obs none c1 c2 c3 c4 c5 by blast
qed

subsection \<open>The method selector of \<^verbatim>\<open>cobp\<close>\<close>




lemma sign_not_digit: "\<not> isdigit CHR ''-''" "\<not> isdigit CHR ''+''"
  by (simp_all add: isdigit_def)

lemma takeWhile_all: "list_all P xs \<Longrightarrow> takeWhile P xs = xs"
  by (induction xs) auto














lemma selector_address_resolved:
  "find (matches c i) (registry m) = Some r \<Longrightarrow> resolve_selector meta i sel = Inr n \<Longrightarrow>
   selector_address meta m c i sel = Inr (vt_address r + ucast n * pointer_width r)"
  by (simp add: selector_address_def)





lemma index_of_in_range: "index_of name methods = Some k \<Longrightarrow> k < length methods \<and> methods ! k = name"
  by (induction methods arbitrary: k) (auto split: if_splits option.splits)






lemma stoul_Release: "stoul ''Release'' = Inl invalid_argument"
  by (simp add: stoul_def strtou_def isspace_def isdigit_def)









subsection \<open>Failures of breakpoint creation\<close>






lemma split_sample_0:
  "split_args (sample_args ''0'') = sample_clsid_text # sample_iid_text # ''0'' # []"
  by (simp add: sample_args_def split_args_def isspace_def sample_clsid_text_def sample_iid_text_def)


lemma stoul_0: "stoul ''0'' = Inr 0"
  by (simp add: stoul_def strtou_def isspace_def isdigit_def decimal_value_def digit_value_def)



subsection \<open>Pause, resume and detach\<close>

lemma comon_pause:
  "SUCCEEDED (QueryInterface E) \<Longrightarrow> find_active_monitor s = Some m \<Longrightarrow>
   split_args args = ''pause'' # rest \<Longrightarrow>
   comon E s args = (Returned S_OK, [], set_monitor s (pause m))"
  by (simp add: comon_def FAILED_def)

lemma comon_resume:
  "SUCCEEDED (QueryInterface E) \<Longrightarrow> find_active_monitor s = Some m \<Longrightarrow>
   split_args args = ''resume'' # rest \<Longrightarrow>
   comon E s args = (Returned S_OK, [], set_monitor s (resume m))"
  by (simp add: comon_def FAILED_def)

lemma comon_detach:
  "SUCCEEDED (QueryInterface E) \<Longrightarrow> find_active_monitor s = Some m \<Longrightarrow>
   split_args args = ''detach'' # rest \<Longrightarrow>
   comon E s args = (Returned S_OK, [], detach s)"
  by (simp add: comon_def FAILED_def)

lemma pause_frame:
  "is_paused (pause m)" "registry (pause m) = registry m" "breakpoints (pause m) = breakpoints m"
  "monitor_filter (pause m) = monitor_filter m"
  by (simp_all add: pause_def is_paused_def)

lemma resume_frame:
  "\<not> is_paused (resume m)" "registry (resume m) = registry m"
  "breakpoints (resume m) = breakpoints m" "monitor_filter (resume m) = monitor_filter m"
  by (simp_all add: resume_def is_paused_def)

lemma resume_pause: "resume (pause m) = resume m"
  by (simp add: resume_def pause_def)

lemma resume_running: "\<not> paused m \<Longrightarrow> resume (pause m) = m"
  by (simp add: resume_def pause_def)

lemma coreg_paused:
  assumes "SUCCEEDED (QueryInterface E)"
    and "split_args args = ctok # itok # atok # rest"
    and "try_parse_guid E ctok = (hc, c)" and "SUCCEEDED hc"
    and "try_parse_guid E itok = (hi, i)" and "SUCCEEDED hi"
    and "find_active_monitor s = Some m"
    and "stoull atok = Inr a"
    and "paused m"
  shows "coreg E s args = (Returned S_OK, [], s)"
  using coreg_registers [OF assms(1-8)] register_vtable_paused [OF assms(9), of E c i a False]
    set_monitor_same [OF assms(7)]
  by simp

text \<open>
  Claim C4. A vtable observation is a registration for a class that the monitor's
  filter observes (section 3 of the specification: a record is created when the
  class passes the active filter). While the monitor is paused,
  \<^verbatim>\<open>register_vtable\<close> reports success and returns the monitor as it was, for every
  event: no record is added, and records and breakpoints are unchanged; pausing
  itself changes only the state, and so does resuming. After \<^verbatim>\<open>resume\<close>, redelivering
  an observation whose (clsid, iid, address) the registry does not hold reports
  success and appends its record, and nothing else changes; in any case the
  registry then holds a record of that (clsid, iid, address). An event that is no
  observation, or whose record is already held, leaves the resumed monitor as it
  is. A new monitor is running, and \<^verbatim>\<open>attach\<close> on a session without a monitor
  installs a new monitor. The commands \<^verbatim>\<open>comon pause\<close> and \<^verbatim>\<open>comon resume\<close> store the
  paused and the resumed monitor in the session, \<^verbatim>\<open>coreg\<close> on a session whose
  monitor is paused succeeds and leaves the session as it was, and on a session
  whose monitor is running it stores the monitor with the observation's record
  appended.
\<close>

theorem paused_register_vtable:
  "(paused m \<longrightarrow> register_vtable E m c i a is64 = (S_OK, m))
   \<and> register_vtable E (pause m) c i a is64 = (S_OK, pause m)
   \<and> is_paused (pause m)
   \<and> registry (pause m) = registry m
   \<and> breakpoints (pause m) = breakpoints m
   \<and> monitor_filter (pause m) = monitor_filter m
   \<and> \<not> is_paused (resume (pause m))
   \<and> registry (resume (pause m)) = registry m
   \<and> breakpoints (resume (pause m)) = breakpoints m
   \<and> monitor_filter (resume (pause m)) = monitor_filter m
   \<and> (\<not> paused m \<longrightarrow> resume (pause m) = m)
   \<and> fst (register_vtable E (resume (pause m)) c i a is64) = S_OK
   \<and> breakpoints (snd (register_vtable E (resume (pause m)) c i a is64)) = breakpoints m
   \<and> (decide (monitor_filter m) c \<and> find (same_vtable c i a) (registry m) = None \<longrightarrow>
        register_vtable E (resume (pause m)) c i a is64 =
          (S_OK, (resume (pause m))\<lparr>registry := registry m @ [observed_record E c i a is64]\<rparr>)
      \<and> registry (snd (register_vtable E (resume (pause m)) c i a is64)) =
          registry m @ [\<lparr>vt_module_name = module_of E a, vt_clsid = c, vt_iid = i,
                         vt_is_64bit = is64, vt_address = a\<rparr>])
   \<and> (decide (monitor_filter m) c \<longrightarrow>
        list_ex (same_vtable c i a)
          (registry (snd (register_vtable E (resume (pause m)) c i a is64))))
   \<and> (\<not> decide (monitor_filter m) c \<or> find (same_vtable c i a) (registry m) \<noteq> None \<longrightarrow>
        register_vtable E (resume (pause m)) c i a is64 = (S_OK, resume (pause m)))
   \<and> \<not> is_paused (new_monitor f)
   \<and> (find_active_monitor s = None \<longrightarrow> attach f s = Inr (set_monitor s (new_monitor f)))
   \<and> (SUCCEEDED (QueryInterface E) \<and> find_active_monitor s = Some m \<longrightarrow>
        (split_args args = ''pause'' # rest \<longrightarrow>
           comon E s args = (Returned S_OK, [], set_monitor s (pause m))
           \<and> find_active_monitor (snd (snd (comon E s args))) = Some (pause m))
      \<and> (split_args args = ''resume'' # rest \<longrightarrow>
           comon E s args = (Returned S_OK, [], set_monitor s (resume m))
           \<and> find_active_monitor (snd (snd (comon E s args))) = Some (resume m)))
   \<and> (SUCCEEDED (QueryInterface E) \<and> split_args cargs = ctok # itok # atok # crest
        \<and> try_parse_guid E ctok = (S_OK, c) \<and> try_parse_guid E itok = (S_OK, i)
        \<and> find_active_monitor s = Some m \<and> stoull atok = Inr a \<and> paused m \<longrightarrow>
        coreg E s cargs = (Returned S_OK, [], s)
        \<and> find_active_monitor (snd (snd (coreg E s cargs))) = Some m)
   \<and> (SUCCEEDED (QueryInterface E) \<and> split_args cargs = ctok # itok # atok # crest
        \<and> try_parse_guid E ctok = (S_OK, c) \<and> try_parse_guid E itok = (S_OK, i)
        \<and> find_active_monitor s = Some m \<and> stoull atok = Inr a \<and> \<not> paused m
        \<and> decide (monitor_filter m) c \<and> find (same_vtable c i a) (registry m) = None \<longrightarrow>
        coreg E s cargs =
          (Returned S_OK, [],
           set_monitor s (m\<lparr>registry := registry m @ [observed_record E c i a False]\<rparr>))
        \<and> find_active_monitor (snd (snd (coreg E s cargs))) =
          Some (m\<lparr>registry := registry m @ [observed_record E c i a False]\<rparr>))"
proof -
  let ?rm = "resume (pause m)"
  have ok: "SUCCEEDED S_OK" by simp
  have run: "\<not> paused ?rm" "registry ?rm = registry m" "monitor_filter ?rm = monitor_filter m"
    by (simp_all add: resume_def pause_def)
  have c1: "paused m \<longrightarrow> register_vtable E m c i a is64 = (S_OK, m)"
    using register_vtable_paused [of m E c i a is64] by simp
  have c2: "register_vtable E (pause m) c i a is64 = (S_OK, pause m)"
    by (rule register_vtable_paused) (simp add: pause_def)
  have c3: "\<not> is_paused ?rm" "registry ?rm = registry m" "breakpoints ?rm = breakpoints m"
    "monitor_filter ?rm = monitor_filter m"
    by (simp_all add: resume_pause resume_frame)
  have c4: "\<not> paused m \<longrightarrow> ?rm = m"
    using resume_running [of m] by simp
  have c5: "fst (register_vtable E ?rm c i a is64) = S_OK"
    by (rule register_vtable_S_OK)
  have c6: "breakpoints (snd (register_vtable E ?rm c i a is64)) = breakpoints m"
    by (simp add: register_vtable_frame c3)
  have c7: "decide (monitor_filter m) c \<and> find (same_vtable c i a) (registry m) = None \<longrightarrow>
        register_vtable E ?rm c i a is64 =
          (S_OK, ?rm\<lparr>registry := registry m @ [observed_record E c i a is64]\<rparr>)
      \<and> registry (snd (register_vtable E ?rm c i a is64)) =
          registry m @ [\<lparr>vt_module_name = module_of E a, vt_clsid = c, vt_iid = i,
                         vt_is_64bit = is64, vt_address = a\<rparr>]"
  proof (intro impI, elim conjE)
    assume d: "decide (monitor_filter m) c" and n: "find (same_vtable c i a) (registry m) = None"
    have "register_vtable E ?rm c i a is64 =
          (S_OK, ?rm\<lparr>registry := registry ?rm @ [observed_record E c i a is64]\<rparr>)"
      by (rule register_vtable_added) (simp_all add: run d n)
    then show "register_vtable E ?rm c i a is64 =
          (S_OK, ?rm\<lparr>registry := registry m @ [observed_record E c i a is64]\<rparr>)
      \<and> registry (snd (register_vtable E ?rm c i a is64)) =
          registry m @ [\<lparr>vt_module_name = module_of E a, vt_clsid = c, vt_iid = i,
                         vt_is_64bit = is64, vt_address = a\<rparr>]"
      by (simp add: run observed_record_def)
  qed
  have c8: "decide (monitor_filter m) c \<longrightarrow>
        list_ex (same_vtable c i a) (registry (snd (register_vtable E ?rm c i a is64)))"
    using registry_register_present [of "monitor_filter m" c i a E is64 "registry m"]
    by (simp add: register_vtable_def run)
  have c9: "\<not> decide (monitor_filter m) c \<or> find (same_vtable c i a) (registry m) \<noteq> None \<longrightarrow>
        register_vtable E ?rm c i a is64 = (S_OK, ?rm)"
    using register_vtable_unchanged [of ?rm c i a E is64] by (simp add: run)
  have c10: "\<not> is_paused (new_monitor f)"
    by (simp add: is_paused_def new_monitor_def)
  have c11: "find_active_monitor s = None \<longrightarrow> attach f s = Inr (set_monitor s (new_monitor f))"
    using attach_detached [of s f] by simp
  have c12: "SUCCEEDED (QueryInterface E) \<and> find_active_monitor s = Some m \<longrightarrow>
        (split_args args = ''pause'' # rest \<longrightarrow>
           comon E s args = (Returned S_OK, [], set_monitor s (pause m))
           \<and> find_active_monitor (snd (snd (comon E s args))) = Some (pause m))
      \<and> (split_args args = ''resume'' # rest \<longrightarrow>
           comon E s args = (Returned S_OK, [], set_monitor s (resume m))
           \<and> find_active_monitor (snd (snd (comon E s args))) = Some (resume m))"
    using comon_pause [of E s m args rest] comon_resume [of E s m args rest]
    by (simp add: find_set_monitor)
  have c13: "SUCCEEDED (QueryInterface E) \<and> split_args cargs = ctok # itok # atok # crest
        \<and> try_parse_guid E ctok = (S_OK, c) \<and> try_parse_guid E itok = (S_OK, i)
        \<and> find_active_monitor s = Some m \<and> stoull atok = Inr a \<and> paused m \<longrightarrow>
        coreg E s cargs = (Returned S_OK, [], s)
        \<and> find_active_monitor (snd (snd (coreg E s cargs))) = Some m"
  proof (intro impI, elim conjE)
    assume h: "SUCCEEDED (QueryInterface E)" "split_args cargs = ctok # itok # atok # crest"
      "try_parse_guid E ctok = (S_OK, c)" "try_parse_guid E itok = (S_OK, i)"
      "find_active_monitor s = Some m" "stoull atok = Inr a" "paused m"
    have "coreg E s cargs = (Returned S_OK, [], s)"
      by (rule coreg_paused [OF h(1,2,3) ok h(4) ok h(5,6,7)])
    then show "coreg E s cargs = (Returned S_OK, [], s)
        \<and> find_active_monitor (snd (snd (coreg E s cargs))) = Some m"
      using h(5) by simp
  qed
  have c14: "SUCCEEDED (QueryInterface E) \<and> split_args cargs = ctok # itok # atok # crest
        \<and> try_parse_guid E ctok = (S_OK, c) \<and> try_parse_guid E itok = (S_OK, i)
        \<and> find_active_monitor s = Some m \<and> stoull atok = Inr a \<and> \<not> paused m
        \<and> decide (monitor_filter m) c \<and> find (same_vtable c i a) (registry m) = None \<longrightarrow>
        coreg E s cargs =
          (Returned S_OK, [],
           set_monitor s (m\<lparr>registry := registry m @ [observed_record E c i a False]\<rparr>))
        \<and> find_active_monitor (snd (snd (coreg E s cargs))) =
          Some (m\<lparr>registry := registry m @ [observed_record E c i a False]\<rparr>)"
  proof (intro impI, elim conjE)
    assume h: "SUCCEEDED (QueryInterface E)" "split_args cargs = ctok # itok # atok # crest"
      "try_parse_guid E ctok = (S_OK, c)" "try_parse_guid E itok = (S_OK, i)"
      "find_active_monitor s = Some m" "stoull atok = Inr a" "\<not> paused m"
      "decide (monitor_filter m) c" "find (same_vtable c i a) (registry m) = None"
    have "coreg E s cargs =
          (Returned S_OK, [], set_monitor s (snd (register_vtable E m c i a False)))"
      by (rule coreg_registers [OF h(1,2,3) ok h(4) ok h(5,6)])
    then show "coreg E s cargs =
          (Returned S_OK, [],
           set_monitor s (m\<lparr>registry := registry m @ [observed_record E c i a False]\<rparr>))
        \<and> find_active_monitor (snd (snd (coreg E s cargs))) =
          Some (m\<lparr>registry := registry m @ [observed_record E c i a False]\<rparr>)"
      by (simp add: register_vtable_added [OF h(7,8,9)] find_set_monitor)
  qed
  show ?thesis
    by (intro conjI c1 c2 pause_frame c3 c4 c5 c6 c7 c8 c9 c10 c11 c12 c13 c14)
qed

lemma split_pause_resume:
  "split_args ''pause'' = ''pause'' # []" "split_args ''resume'' = ''resume'' # []"
  by (simp_all add: split_args_def isspace_def)

text \<open>
  Claim C4 on the sample session, through the handlers: \<^verbatim>\<open>comon pause\<close>, then
  \<^verbatim>\<open>coreg\<close>, which changes nothing; \<^verbatim>\<open>comon resume\<close>, which gives the first session
  back; then the same observation on the resumed monitor, which adds its record.
  On the monitor whose filter excludes the class the event is no observation.
\<close>

theorem paused_register_vtable_witness:
  "paused (pause (new_monitor no_filter))
   \<and> register_vtable sample_extern (pause (new_monitor no_filter)) sample_clsid sample_iid 4096 True
        = (S_OK, pause (new_monitor no_filter))
   \<and> \<not> paused (new_monitor no_filter)
   \<and> resume (pause (new_monitor no_filter)) = new_monitor no_filter
   \<and> decide (monitor_filter (new_monitor no_filter)) sample_clsid
   \<and> find (same_vtable sample_clsid sample_iid 4096) (registry (new_monitor no_filter)) = None
   \<and> register_vtable sample_extern (resume (pause (new_monitor no_filter)))
        sample_clsid sample_iid 4096 True
        = (S_OK, (new_monitor no_filter)
             \<lparr>registry := [\<lparr>vt_module_name = ''combase'', vt_clsid = sample_clsid,
                              vt_iid = sample_iid, vt_is_64bit = True, vt_address = 4096\<rparr>]\<rparr>)
   \<and> \<not> decide (monitor_filter excluding_monitor) sample_clsid
   \<and> register_vtable sample_extern (resume (pause excluding_monitor))
        sample_clsid sample_iid 4096 True
        = (S_OK, resume (pause excluding_monitor))
   \<and> find_active_monitor detached_session = None
   \<and> attach no_filter detached_session
        = Inr (set_monitor detached_session (new_monitor no_filter))
   \<and> SUCCEEDED (QueryInterface sample_extern)
   \<and> find_active_monitor attached_session = Some (new_monitor no_filter)
   \<and> split_args ''pause'' = ''pause'' # []
   \<and> split_args ''resume'' = ''resume'' # []
   \<and> comon sample_extern attached_session ''pause''
        = (Returned S_OK, [], set_monitor attached_session (pause (new_monitor no_filter)))
   \<and> find_active_monitor (set_monitor attached_session (pause (new_monitor no_filter)))
        = Some (pause (new_monitor no_filter))
   \<and> split_args (sample_args ''4096'') = sample_clsid_text # sample_iid_text # ''4096'' # []
   \<and> try_parse_guid sample_extern sample_clsid_text = (S_OK, sample_clsid)
   \<and> try_parse_guid sample_extern sample_iid_text = (S_OK, sample_iid)
   \<and> stoull ''4096'' = Inr 4096
   \<and> coreg sample_extern (set_monitor attached_session (pause (new_monitor no_filter)))
        (sample_args ''4096'')
        = (Returned S_OK, [], set_monitor attached_session (pause (new_monitor no_filter)))
   \<and> comon sample_extern (set_monitor attached_session (pause (new_monitor no_filter)))
        ''resume''
        = (Returned S_OK, [], attached_session)
   \<and> coreg sample_extern attached_session (sample_args ''4096'')
        = (Returned S_OK, [],
           set_monitor attached_session
             ((new_monitor no_filter)
                \<lparr>registry := [\<lparr>vt_module_name = ''combase'', vt_clsid = sample_clsid,
                                 vt_iid = sample_iid, vt_is_64bit = False,
                                 vt_address = 4096\<rparr>]\<rparr>))"
proof -
  let ?m = "new_monitor no_filter"
  let ?ps = "set_monitor attached_session (pause ?m)"
  have p: "paused (pause ?m)" by (simp add: pause_def)
  have r: "\<not> paused ?m" by (simp add: new_monitor_def)
  have d: "decide (monitor_filter ?m) sample_clsid" by (simp add: new_monitor_def)
  have n: "find (same_vtable sample_clsid sample_iid 4096) (registry ?m) = None"
    by (simp add: new_monitor_def)
  have x: "\<not> decide (monitor_filter excluding_monitor) sample_clsid"
    by (simp add: excluding_monitor_def new_monitor_def)
  have dn: "find_active_monitor detached_session = None"
    by (simp add: find_active_monitor_def detached_session_def)
  have q: "SUCCEEDED (QueryInterface sample_extern)" by (simp add: sample_extern_simps)
  have am: "find_active_monitor attached_session = Some ?m"
    by (simp add: find_active_monitor_def attached_session_def)
  have pm: "find_active_monitor ?ps = Some (pause ?m)"
    by (rule find_set_monitor)
  have pc: "try_parse_guid sample_extern sample_clsid_text = (S_OK, sample_clsid)"
    by (simp add: sample_extern_simps sample_parser_simps)
  have pi: "try_parse_guid sample_extern sample_iid_text = (S_OK, sample_iid)"
    by (simp add: sample_extern_simps sample_parser_simps)
  note on_paused = paused_register_vtable [where m = "pause ?m" and E = sample_extern
      and c = sample_clsid and i = sample_iid and a = 4096 and ?is64.0 = True and f = no_filter
      and s = ?ps and args = "''resume''" and rest = "[]" and cargs = "sample_args ''4096''"
      and ctok = sample_clsid_text and itok = sample_iid_text and atok = "''4096''"
      and crest = "[]"]
  note on_new = paused_register_vtable [where m = ?m and E = sample_extern
      and c = sample_clsid and i = sample_iid and a = 4096 and ?is64.0 = True and f = no_filter
      and s = attached_session and args = "''pause''" and rest = "[]"
      and cargs = "sample_args ''4096''" and ctok = sample_clsid_text and itok = sample_iid_text
      and atok = "''4096''" and crest = "[]"]
  note on_detached = paused_register_vtable [where m = ?m and E = sample_extern
      and c = sample_clsid and i = sample_iid and a = 4096 and ?is64.0 = True and f = no_filter
      and s = detached_session]
  note on_excluding = paused_register_vtable [where m = excluding_monitor and E = sample_extern
      and c = sample_clsid and i = sample_iid and a = 4096 and ?is64.0 = True]
  have r1: "register_vtable sample_extern (pause ?m) sample_clsid sample_iid 4096 True
        = (S_OK, pause ?m)"
    using on_paused p by blast
  have r2: "resume (pause ?m) = ?m"
    using on_new r by blast
  have "register_vtable sample_extern (resume (pause ?m)) sample_clsid sample_iid 4096 True
        = (S_OK, (resume (pause ?m))
             \<lparr>registry := registry ?m @
                [observed_record sample_extern sample_clsid sample_iid 4096 True]\<rparr>)"
    using on_new d n by blast
  then have r3: "register_vtable sample_extern (resume (pause ?m)) sample_clsid sample_iid 4096 True
        = (S_OK, ?m\<lparr>registry := [\<lparr>vt_module_name = ''combase'', vt_clsid = sample_clsid,
                              vt_iid = sample_iid, vt_is_64bit = True, vt_address = 4096\<rparr>]\<rparr>)"
    unfolding r2 by (simp add: observed_record_def sample_extern_simps new_monitor_def)
  have r4: "register_vtable sample_extern (resume (pause excluding_monitor))
        sample_clsid sample_iid 4096 True = (S_OK, resume (pause excluding_monitor))"
    using on_excluding x by blast
  have r5: "attach no_filter detached_session = Inr (set_monitor detached_session ?m)"
    using on_detached dn by blast
  have r6: "comon sample_extern attached_session ''pause'' = (Returned S_OK, [], ?ps)"
    using on_new q am split_pause_resume(1) by blast
  have r7: "coreg sample_extern ?ps (sample_args ''4096'') = (Returned S_OK, [], ?ps)"
    using on_paused q split_sample_4096 pc pi pm stoull_4096 p by blast
  have "comon sample_extern ?ps ''resume''
        = (Returned S_OK, [], set_monitor ?ps (resume (pause ?m)))"
    using on_paused q pm split_pause_resume(2) by blast
  then have r8: "comon sample_extern ?ps ''resume'' = (Returned S_OK, [], attached_session)"
    by (simp add: r2 set_monitor_def attached_session_def)
  have "coreg sample_extern attached_session (sample_args ''4096'')
        = (Returned S_OK, [],
           set_monitor attached_session
             (?m\<lparr>registry := registry ?m @
                [observed_record sample_extern sample_clsid sample_iid 4096 False]\<rparr>))"
    using on_new q split_sample_4096 pc pi am stoull_4096 r d n by blast
  then have r9: "coreg sample_extern attached_session (sample_args ''4096'')
        = (Returned S_OK, [],
           set_monitor attached_session
             (?m\<lparr>registry := [\<lparr>vt_module_name = ''combase'', vt_clsid = sample_clsid,
                                 vt_iid = sample_iid, vt_is_64bit = False,
                                 vt_address = 4096\<rparr>]\<rparr>))"
    by (simp add: sample_record new_monitor_def)
  show ?thesis
    using p r1 r r2 d n r3 x r4 dn r5 q am split_pause_resume r6 pm split_sample_4096 pc pi
      stoull_4096 r7 r8 r9
    by blast
qed

lemma detach_detached: "find_active_monitor s = None \<Longrightarrow> detach s = s"
  by (simp add: detach_def find_active_monitor_def)

text \<open>
  Claim C6. \<^verbatim>\<open>detach\<close> has no failure; after it the session has no monitor, a second
  \<^verbatim>\<open>detach\<close> changes nothing, on a session that never had a monitor it changes
  nothing at all, and the metadata store stays. \<^verbatim>\<open>DebugExtensionUninitialize\<close> is
  \<^verbatim>\<open>detach\<close>, with no condition, also after the command \<^verbatim>\<open>comon detach\<close>.
\<close>

theorem detach_idempotent:
  "find_active_monitor (detach s) = None
   \<and> detach (detach s) = detach s
   \<and> get_metadata (detach s) = get_metadata s
   \<and> (find_active_monitor s = None \<longrightarrow> detach s = s)
   \<and> DebugExtensionUninitialize s = detach s
   \<and> DebugExtensionUninitialize (detach s) = detach s
   \<and> find_active_monitor (DebugExtensionUninitialize s) = None
   \<and> (SUCCEEDED (QueryInterface E) \<and> find_active_monitor s = Some m
        \<and> split_args args = ''detach'' # rest \<longrightarrow>
        comon E s args = (Returned S_OK, [], detach s)
      \<and> DebugExtensionUninitialize (snd (snd (comon E s args))) = detach s)"
proof -
  have a: "find_active_monitor (detach s) = None"
    by (simp add: detach_def find_active_monitor_def)
  have b: "detach (detach s) = detach s"
    by (simp add: detach_def)
  have c: "get_metadata (detach s) = get_metadata s"
    by (simp add: detach_def get_metadata_def)
  have d: "DebugExtensionUninitialize s = detach s"
    "DebugExtensionUninitialize (detach s) = detach s"
    by (simp_all add: DebugExtensionUninitialize_def b)
  have e: "find_active_monitor (DebugExtensionUninitialize s) = None"
    by (simp add: d a)
  have f: "comon E s args = (Returned S_OK, [], detach s)
      \<and> DebugExtensionUninitialize (snd (snd (comon E s args))) = detach s"
    if "SUCCEEDED (QueryInterface E)" "find_active_monitor s = Some m"
      "split_args args = ''detach'' # rest"
    using comon_detach [OF that] d(2) by simp
  show ?thesis
    using a b c d e f detach_detached [of s] by blast
qed

text \<open>
  Claim C6 on the sample sessions: an explicit \<^verbatim>\<open>comon detach\<close>, then the unload.
\<close>

theorem detach_idempotent_witness:
  "find_active_monitor detached_session = None
   \<and> detach detached_session = detached_session
   \<and> SUCCEEDED (QueryInterface sample_extern)
   \<and> find_active_monitor attached_session = Some (new_monitor no_filter)
   \<and> split_args ''detach'' = ''detach'' # []
   \<and> comon sample_extern attached_session ''detach'' = (Returned S_OK, [], detached_session)
   \<and> DebugExtensionUninitialize (snd (snd (comon sample_extern attached_session ''detach'')))
        = detached_session
   \<and> DebugExtensionUninitialize detached_session = detached_session"
proof -
  have dn: "find_active_monitor detached_session = None"
    by (simp add: find_active_monitor_def detached_session_def)
  have q: "SUCCEEDED (QueryInterface sample_extern)" by (simp add: sample_extern_simps)
  have am: "find_active_monitor attached_session = Some (new_monitor no_filter)"
    by (simp add: find_active_monitor_def attached_session_def)
  have sp: "split_args ''detach'' = ''detach'' # []"
    by (simp add: split_args_def isspace_def)
  have da: "detach attached_session = detached_session"
    by (simp add: detach_def attached_session_def detached_session_def)
  note on_detached = detach_idempotent [of detached_session sample_extern "new_monitor no_filter"
      "''detach''" "[]"]
  note on_attached = detach_idempotent [of attached_session sample_extern "new_monitor no_filter"
      "''detach''" "[]"]
  have r1: "detach detached_session = detached_session"
    using on_detached dn by blast
  have r2: "comon sample_extern attached_session ''detach''
              = (Returned S_OK, [], detach attached_session)
      \<and> DebugExtensionUninitialize (snd (snd (comon sample_extern attached_session ''detach'')))
              = detach attached_session"
    using on_attached q am sp by blast
  have r3: "DebugExtensionUninitialize detached_session = detach detached_session"
    using on_detached by blast
  show ?thesis
    using dn r1 q am sp r2 r3 by (simp add: da)
qed

end
